theory Spec2Isabelle
  imports
    Main
    "HOL-Library.AList"
    "HOL-Library.Char_ord"
    "HOL-Library.List_Lexorder"
    "HOL-Library.Multiset"
    "HOL-Library.Product_Lexorder"
    "HOL-Library.Sublist"
begin

section \<open>Domain types (types.ts)\<close>

text \<open>
  JavaScript objects have an identity that the reducer observes: \<^verbatim>\<open>!==\<close> on two arrays
  compares the objects, not their contents, and \<^verbatim>\<open>return state\<close> hands back the very
  object it was given. The model therefore gives an address to the three kinds of object
  whose identity matters here: the state object, its \<^verbatim>\<open>notes\<close> array and the
  \<^verbatim>\<open>tagIds\<close> array of a note. Everything else is modelled by value.
\<close>

type_synonym addr = nat

datatype 'a array = Array (ref: addr) (elems: "'a list")

text \<open>\<^verbatim>\<open>deletedAt?: string | null\<close>: absent, \<^verbatim>\<open>null\<close> or a timestamp.\<close>

datatype opt_string = Undefined | Null | Str string

text \<open>JavaScript truthiness of such a value: the empty string is falsy as well.\<close>

fun truthy :: "opt_string \<Rightarrow> bool" where
  "truthy Undefined = False"
| "truthy Null = False"
| "truthy (Str s) = (s \<noteq> [])"

text \<open>
  Timestamps are the strings \<^verbatim>\<open>new Date().toISOString()\<close> produces
  (\<^verbatim>\<open>YYYY-MM-DDTHH:mm:ss.sssZ\<close>); on that fixed-width format the lexicographic order
  of strings is the order of time, and \<open>\<le>\<close> on strings below is that order.
\<close>

record Note =
  id :: string
  title :: string
  body :: string
  tagIds :: "string array"
  pinned :: bool
  archived :: bool
  createdAt :: string
  updatedAt :: string
  deletedAt :: opt_string

record Tag =
  id :: string
  name :: string
  color :: "string option"
  createdAt :: string
  updatedAt :: string

datatype Theme = Light | Dark | System
datatype Density = Comfortable | Compact
datatype TagFilterMode = Mode_ANY | Mode_ALL

record Preferences =
  theme :: Theme
  density :: Density
  tagFilterMode :: TagFilterMode

datatype SortOption = ByUpdatedAt | ByCreatedAt | ByTitle
datatype SortDirection = Asc | Desc

record FilterState =
  search :: string
  tags :: "string list"
  showArchived :: bool
  showPinned :: bool
  showUntagged :: bool
  sortBy :: SortOption
  sortDirection :: SortDirection

section \<open>Application state and actions (AppContext.tsx)\<close>

record AppState =
  self :: addr
  "notes" :: "Note array"
  tags :: "Tag list"
  preferences :: Preferences
  filters :: FilterState
  selectedNoteId :: "string option"
  isEditing :: bool

text \<open>\<^verbatim>\<open>Omit<Note, 'id' | 'createdAt' | 'updatedAt'>\<close>, the payload of \<^verbatim>\<open>ADD_NOTE\<close>.\<close>

record NewNote =
  title :: string
  body :: string
  tagIds :: "string array"
  pinned :: bool
  archived :: bool
  deletedAt :: opt_string

text \<open>
  \<^verbatim>\<open>Partial<Note>\<close> without its \<^verbatim>\<open>id\<close>, the \<^verbatim>\<open>changes\<close> of \<^verbatim>\<open>UPDATE_NOTE\<close>:
  \<open>None\<close> is a key the payload does not have, \<open>Some v\<close> a key it has, with a value of
  the field's own type.
\<close>

record NoteChanges =
  title :: "string option"
  body :: "string option"
  tagIds :: "string array option"
  pinned :: "bool option"
  archived :: "bool option"
  createdAt :: "string option"
  updatedAt :: "string option"
  deletedAt :: "opt_string option"

record NewTag =
  name :: string
  color :: "string option"

record TagChanges =
  name :: "string option"
  color :: "string option option"
  createdAt :: "string option"
  updatedAt :: "string option"

record PreferencesChanges =
  theme :: "Theme option"
  density :: "Density option"
  tagFilterMode :: "TagFilterMode option"

record FilterChanges =
  search :: "string option"
  tags :: "string list option"
  showArchived :: "bool option"
  showPinned :: "bool option"
  showUntagged :: "bool option"
  sortBy :: "SortOption option"
  sortDirection :: "SortDirection option"

datatype AppAction =
    ADD_NOTE NewNote
  | UPDATE_NOTE string NoteChanges
  | DELETE_NOTE string
  | RESTORE_NOTE string
  | ADD_TAG NewTag
  | UPDATE_TAG string TagChanges
  | DELETE_TAG string
  | UPDATE_PREFERENCES PreferencesChanges
  | UPDATE_FILTERS FilterChanges
  | SELECT_NOTE "string option"
  | SET_EDITING bool
  | IMPORT_DATA "Note array" "Tag list" Preferences

text \<open>
  What one call of the reducer reads from its surroundings: the clock
  (\<^verbatim>\<open>new Date().toISOString()\<close>, one reading for the whole call), the identifier
  \<^verbatim>\<open>generateUUID()\<close> returns (its module is not part of the sources at hand, so the
  value is an input), and the first address the allocator has free: the new state object
  is put at \<open>heap\<close>, a new \<^verbatim>\<open>notes\<close> array at \<open>heap + 1\<close>, new \<^verbatim>\<open>tagIds\<close> arrays from
  \<open>heap + 2\<close> on.
\<close>

record Env =
  now :: string
  uuid :: string
  heap :: addr

text \<open>Spreading an optional key over the current value (\<^verbatim>\<open>{ ...cur, ...changes }\<close>).\<close>

fun spread :: "'a \<Rightarrow> 'a option \<Rightarrow> 'a" where
  "spread cur None = cur"
| "spread cur (Some v) = v"

text \<open>
  \<^verbatim>\<open>Object.entries(changes).some(([key, value]) => targetNote[key] !== value)\<close>.
  Strings, booleans, \<^verbatim>\<open>null\<close> and \<^verbatim>\<open>undefined\<close> are compared by value, the
  \<^verbatim>\<open>tagIds\<close> arrays by identity.
\<close>

fun differs :: "'a \<Rightarrow> 'a option \<Rightarrow> bool" where
  "differs cur None = False"
| "differs cur (Some v) = (cur \<noteq> v)"

fun differs_ref :: "'a array \<Rightarrow> 'a array option \<Rightarrow> bool" where
  "differs_ref cur None = False"
| "differs_ref cur (Some a) = (ref cur \<noteq> ref a)"

definition hasChanges :: "Note \<Rightarrow> NoteChanges \<Rightarrow> bool" where
  "hasChanges targetNote changes \<longleftrightarrow>
     differs (Note.title targetNote) (NoteChanges.title changes) \<or>
     differs (Note.body targetNote) (NoteChanges.body changes) \<or>
     differs_ref (Note.tagIds targetNote) (NoteChanges.tagIds changes) \<or>
     differs (Note.pinned targetNote) (NoteChanges.pinned changes) \<or>
     differs (Note.archived targetNote) (NoteChanges.archived changes) \<or>
     differs (Note.createdAt targetNote) (NoteChanges.createdAt changes) \<or>
     differs (Note.updatedAt targetNote) (NoteChanges.updatedAt changes) \<or>
     differs (Note.deletedAt targetNote) (NoteChanges.deletedAt changes)"

text \<open>\<^verbatim>\<open>{ ...note, ...changes, updatedAt: new Date().toISOString() }\<close>\<close>

definition updateNote :: "string \<Rightarrow> NoteChanges \<Rightarrow> Note \<Rightarrow> Note" where
  "updateNote t changes note =
     \<lparr> Note.id = Note.id note,
       Note.title = spread (Note.title note) (NoteChanges.title changes),
       Note.body = spread (Note.body note) (NoteChanges.body changes),
       Note.tagIds = spread (Note.tagIds note) (NoteChanges.tagIds changes),
       Note.pinned = spread (Note.pinned note) (NoteChanges.pinned changes),
       Note.archived = spread (Note.archived note) (NoteChanges.archived changes),
       Note.createdAt = spread (Note.createdAt note) (NoteChanges.createdAt changes),
       Note.updatedAt = t,
       Note.deletedAt = spread (Note.deletedAt note) (NoteChanges.deletedAt changes) \<rparr>"

text \<open>\<^verbatim>\<open>{ ...tag, ...changes, updatedAt: new Date().toISOString() }\<close>\<close>

definition updateTag :: "string \<Rightarrow> TagChanges \<Rightarrow> Tag \<Rightarrow> Tag" where
  "updateTag t changes tag =
     \<lparr> Tag.id = Tag.id tag,
       Tag.name = spread (Tag.name tag) (TagChanges.name changes),
       Tag.color = spread (Tag.color tag) (TagChanges.color changes),
       Tag.createdAt = spread (Tag.createdAt tag) (TagChanges.createdAt changes),
       Tag.updatedAt = t \<rparr>"

definition updatePreferences :: "PreferencesChanges \<Rightarrow> Preferences \<Rightarrow> Preferences" where
  "updatePreferences changes p =
     \<lparr> Preferences.theme = spread (Preferences.theme p) (PreferencesChanges.theme changes),
       Preferences.density = spread (Preferences.density p) (PreferencesChanges.density changes),
       Preferences.tagFilterMode =
         spread (Preferences.tagFilterMode p) (PreferencesChanges.tagFilterMode changes) \<rparr>"

definition updateFilters :: "FilterChanges \<Rightarrow> FilterState \<Rightarrow> FilterState" where
  "updateFilters changes f =
     \<lparr> FilterState.search = spread (FilterState.search f) (FilterChanges.search changes),
       FilterState.tags = spread (FilterState.tags f) (FilterChanges.tags changes),
       FilterState.showArchived =
         spread (FilterState.showArchived f) (FilterChanges.showArchived changes),
       FilterState.showPinned = spread (FilterState.showPinned f) (FilterChanges.showPinned changes),
       FilterState.showUntagged =
         spread (FilterState.showUntagged f) (FilterChanges.showUntagged changes),
       FilterState.sortBy = spread (FilterState.sortBy f) (FilterChanges.sortBy changes),
       FilterState.sortDirection =
         spread (FilterState.sortDirection f) (FilterChanges.sortDirection changes) \<rparr>"

text \<open>
  The note \<^verbatim>\<open>ADD_NOTE\<close> builds. The payload is spread after \<^verbatim>\<open>id\<close>,
  \<^verbatim>\<open>createdAt\<close> and \<^verbatim>\<open>updatedAt\<close>, none of which its type has;
  \<^verbatim>\<open>payload.tagIds || []\<close> is the payload's own array, an array being truthy, and
  \<^verbatim>\<open>pinned || false\<close>, \<^verbatim>\<open>archived || false\<close> are the payload's booleans.
\<close>

definition newNote :: "Env \<Rightarrow> NewNote \<Rightarrow> Note" where
  "newNote env payload =
     \<lparr> Note.id = uuid env,
       Note.title = NewNote.title payload,
       Note.body = NewNote.body payload,
       Note.tagIds = NewNote.tagIds payload,
       Note.pinned = NewNote.pinned payload,
       Note.archived = NewNote.archived payload,
       Note.createdAt = now env,
       Note.updatedAt = now env,
       Note.deletedAt = NewNote.deletedAt payload \<rparr>"

definition newTag :: "Env \<Rightarrow> NewTag \<Rightarrow> Tag" where
  "newTag env payload =
     \<lparr> Tag.id = uuid env,
       Tag.name = NewTag.name payload,
       Tag.color = NewTag.color payload,
       Tag.createdAt = now env,
       Tag.updatedAt = now env \<rparr>"

text \<open>
  The reducer. \<^verbatim>\<open>return state\<close> is \<open>state\<close>; an object literal
  \<^verbatim>\<open>{ ...state, ... }\<close> is a new object at \<open>heap env\<close>, and an array built by a
  spread, \<^verbatim>\<open>map\<close> or \<^verbatim>\<open>filter\<close> is a new array.
\<close>

fun appReducer :: "Env \<Rightarrow> AppState \<Rightarrow> AppAction \<Rightarrow> AppState" where
  "appReducer env state (ADD_NOTE payload) =
     state\<lparr> self := heap env,
            notes := Array (heap env + 1) (newNote env payload # elems (notes state)),
            selectedNoteId := Some (Note.id (newNote env payload)),
            isEditing := True \<rparr>"
| "appReducer env state (UPDATE_NOTE ident changes) =
     (case find (\<lambda>note. Note.id note = ident) (elems (notes state)) of
        None \<Rightarrow> state
      | Some targetNote \<Rightarrow>
          if \<not> hasChanges targetNote changes then state
          else state\<lparr> self := heap env,
                      notes := Array (heap env + 1)
                        (map (\<lambda>note. if Note.id note = ident
                                      then updateNote (now env) changes note else note)
                           (elems (notes state))) \<rparr>)"
| "appReducer env state (DELETE_NOTE ident) =
     state\<lparr> self := heap env,
            notes := Array (heap env + 1)
              (map (\<lambda>note. if Note.id note = ident
                            then note\<lparr> Note.deletedAt := Str (now env) \<rparr> else note)
                 (elems (notes state))),
            selectedNoteId :=
              (if selectedNoteId state = Some ident then None else selectedNoteId state) \<rparr>"
| "appReducer env state (RESTORE_NOTE ident) =
     state\<lparr> self := heap env,
            notes := Array (heap env + 1)
              (map (\<lambda>note. if Note.id note = ident
                            then note\<lparr> Note.deletedAt := Null \<rparr> else note)
                 (elems (notes state))) \<rparr>"
| "appReducer env state (ADD_TAG payload) =
     state\<lparr> self := heap env, AppState.tags := AppState.tags state @ [newTag env payload] \<rparr>"
| "appReducer env state (UPDATE_TAG ident changes) =
     state\<lparr> self := heap env,
            AppState.tags :=
              map (\<lambda>tag. if Tag.id tag = ident then updateTag (now env) changes tag else tag)
                (AppState.tags state) \<rparr>"
| "appReducer env state (DELETE_TAG ident) =
     state\<lparr> self := heap env,
            AppState.tags := filter (\<lambda>tag. Tag.id tag \<noteq> ident) (AppState.tags state),
            notes := Array (heap env + 1)
              (map (\<lambda>(a, note).
                      note\<lparr> Note.tagIds :=
                        Array a (filter (\<lambda>tagId. tagId \<noteq> ident) (elems (Note.tagIds note))) \<rparr>)
                 (enumerate (heap env + 2) (elems (notes state)))) \<rparr>"
| "appReducer env state (UPDATE_PREFERENCES changes) =
     state\<lparr> self := heap env, preferences := updatePreferences changes (preferences state) \<rparr>"
| "appReducer env state (UPDATE_FILTERS changes) =
     state\<lparr> self := heap env, filters := updateFilters changes (filters state) \<rparr>"
| "appReducer env state (SELECT_NOTE sel) =
     state\<lparr> self := heap env, selectedNoteId := sel, isEditing := False \<rparr>"
| "appReducer env state (SET_EDITING e) =
     state\<lparr> self := heap env, isEditing := e \<rparr>"
| "appReducer env state (IMPORT_DATA ns ts ps) =
     state\<lparr> self := heap env, notes := ns, AppState.tags := ts, preferences := ps \<rparr>"

section \<open>Runs of the reducer and the invariant of the notes\<close>

text \<open>A run dispatches a list of actions, each with the surroundings of its call.\<close>

fun run :: "AppState \<Rightarrow> (Env \<times> AppAction) list \<Rightarrow> AppState" where
  "run state [] = state"
| "run state ((env, action) # rest) = run (appReducer env state action) rest"

definition ids_unique :: "AppState \<Rightarrow> bool" where
  "ids_unique state \<longleftrightarrow> distinct (map Note.id (elems (notes state)))"

definition timestamps_ordered :: "AppState \<Rightarrow> bool" where
  "timestamps_ordered state \<longleftrightarrow>
     list_all (\<lambda>note. Note.createdAt note \<le> Note.updatedAt note) (elems (notes state))"

definition note_invariant :: "AppState \<Rightarrow> bool" where
  "note_invariant state \<longleftrightarrow> ids_unique state \<and> timestamps_ordered state"

text \<open>The four note actions the invariant is stated for.\<close>

fun note_action :: "AppAction \<Rightarrow> bool" where
  "note_action (ADD_NOTE payload) = True"
| "note_action (UPDATE_NOTE ident changes) = True"
| "note_action (DELETE_NOTE ident) = True"
| "note_action (RESTORE_NOTE ident) = True"
| "note_action other = False"

text \<open>
  What the surroundings and the payload owe one step: the identifier an \<^verbatim>\<open>ADD_NOTE\<close>
  receives is not the \<^verbatim>\<open>id\<close> of a note of the state, and the clock an
  \<^verbatim>\<open>UPDATE_NOTE\<close> reads is not earlier than the \<^verbatim>\<open>createdAt\<close> the updated note
  ends with (its own, or the payload's when the payload has that key).
\<close>

fun admissible :: "AppState \<Rightarrow> Env \<times> AppAction \<Rightarrow> bool" where
  "admissible state (env, ADD_NOTE payload) =
     (uuid env \<notin> set (map Note.id (elems (notes state))))"
| "admissible state (env, UPDATE_NOTE ident changes) =
     list_all (\<lambda>note. Note.id note = ident \<longrightarrow>
                 spread (Note.createdAt note) (NoteChanges.createdAt changes) \<le> now env)
       (elems (notes state))"
| "admissible state (env, DELETE_NOTE ident) = True"
| "admissible state (env, RESTORE_NOTE ident) = True"
| "admissible state (env, other) = False"

fun admissible_run :: "AppState \<Rightarrow> (Env \<times> AppAction) list \<Rightarrow> bool" where
  "admissible_run state [] = True"
| "admissible_run state (step # rest) =
     (admissible state step \<and> admissible_run (appReducer (fst step) state (snd step)) rest)"

section \<open>Example data\<close>

definition note_A :: Note where
  "note_A = \<lparr> Note.id = ''A'', Note.title = ''b'', Note.body = ''Meeting Notes'',
     Note.tagIds = Array 1 [''x''], Note.pinned = False, Note.archived = False,
     Note.createdAt = ''2024-01-01T00:00:00.000Z'', Note.updatedAt = ''2024-01-03T00:00:00.000Z'',
     Note.deletedAt = Undefined \<rparr>"

definition note_B :: Note where
  "note_B = \<lparr> Note.id = ''B'', Note.title = ''a'', Note.body = [],
     Note.tagIds = Array 2 [''y''], Note.pinned = False, Note.archived = False,
     Note.createdAt = ''2024-01-02T00:00:00.000Z'', Note.updatedAt = ''2024-01-02T00:00:00.000Z'',
     Note.deletedAt = Undefined \<rparr>"

definition note_C :: Note where
  "note_C = \<lparr> Note.id = ''C'', Note.title = ''c'', Note.body = [],
     Note.tagIds = Array 3 [''x'', ''y''], Note.pinned = True, Note.archived = False,
     Note.createdAt = ''2024-01-03T00:00:00.000Z'', Note.updatedAt = ''2024-01-04T00:00:00.000Z'',
     Note.deletedAt = Undefined \<rparr>"

definition tag_x :: Tag where
  "tag_x = \<lparr> Tag.id = ''x'', Tag.name = ''work'', Tag.color = None,
     Tag.createdAt = ''2024-01-01T00:00:00.000Z'', Tag.updatedAt = ''2024-01-01T00:00:00.000Z'' \<rparr>"

definition tag_y :: Tag where
  "tag_y = \<lparr> Tag.id = ''y'', Tag.name = ''home'', Tag.color = Some ''hsl(10, 60%, 45%)'',
     Tag.createdAt = ''2024-01-01T00:00:00.000Z'', Tag.updatedAt = ''2024-01-01T00:00:00.000Z'' \<rparr>"

text \<open>The preferences and filters of \<^verbatim>\<open>defaultState\<close>.\<close>

definition defaultPreferences :: Preferences where
  "defaultPreferences =
     \<lparr> Preferences.theme = System, Preferences.density = Comfortable,
       Preferences.tagFilterMode = Mode_ANY \<rparr>"

definition defaultFilters :: FilterState where
  "defaultFilters =
     \<lparr> FilterState.search = [], FilterState.tags = [], FilterState.showArchived = False,
       FilterState.showPinned = True, FilterState.showUntagged = False,
       FilterState.sortBy = ByUpdatedAt, FilterState.sortDirection = Desc \<rparr>"

definition state_ABC :: AppState where
  "state_ABC =
     \<lparr> self = 4, notes = Array 5 [note_A, note_B, note_C], AppState.tags = [tag_x, tag_y],
       preferences = defaultPreferences, filters = defaultFilters,
       selectedNoteId = None, isEditing = False \<rparr>"

definition env_1 :: Env where
  "env_1 = \<lparr> now = ''2024-02-01T00:00:00.000Z'', uuid = ''D'', heap = 6 \<rparr>"

definition no_changes :: NoteChanges where
  "no_changes =
     \<lparr> NoteChanges.title = None, NoteChanges.body = None, NoteChanges.tagIds = None,
       NoteChanges.pinned = None, NoteChanges.archived = None, NoteChanges.createdAt = None,
       NoteChanges.updatedAt = None, NoteChanges.deletedAt = None \<rparr>"

text \<open>
  A payload that changes nothing, in two readings. \<open>strictly_equal\<close>: every key the
  payload has holds what \<^verbatim>\<open>===\<close> takes for the note's value, which for \<^verbatim>\<open>tagIds\<close> is
  the note's own array object. \<open>equal_values\<close>: every key the payload has holds a value
  equal to the note's, which for \<^verbatim>\<open>tagIds\<close> is an array of the same ids in the same
  order, whichever array object it is.
\<close>

definition same_value :: "'a \<Rightarrow> 'a option \<Rightarrow> bool" where
  "same_value cur entry \<longleftrightarrow> entry = None \<or> entry = Some cur"

definition same_elems :: "'a array \<Rightarrow> 'a array option \<Rightarrow> bool" where
  "same_elems cur entry \<longleftrightarrow> (case entry of None \<Rightarrow> True | Some a \<Rightarrow> elems a = elems cur)"

definition strictly_equal :: "Note \<Rightarrow> NoteChanges \<Rightarrow> bool" where
  "strictly_equal note changes \<longleftrightarrow>
     same_value (Note.title note) (NoteChanges.title changes) \<and>
     same_value (Note.body note) (NoteChanges.body changes) \<and>
     same_value (Note.tagIds note) (NoteChanges.tagIds changes) \<and>
     same_value (Note.pinned note) (NoteChanges.pinned changes) \<and>
     same_value (Note.archived note) (NoteChanges.archived changes) \<and>
     same_value (Note.createdAt note) (NoteChanges.createdAt changes) \<and>
     same_value (Note.updatedAt note) (NoteChanges.updatedAt changes) \<and>
     same_value (Note.deletedAt note) (NoteChanges.deletedAt changes)"

definition equal_values :: "Note \<Rightarrow> NoteChanges \<Rightarrow> bool" where
  "equal_values note changes \<longleftrightarrow>
     same_value (Note.title note) (NoteChanges.title changes) \<and>
     same_value (Note.body note) (NoteChanges.body changes) \<and>
     same_elems (Note.tagIds note) (NoteChanges.tagIds changes) \<and>
     same_value (Note.pinned note) (NoteChanges.pinned changes) \<and>
     same_value (Note.archived note) (NoteChanges.archived changes) \<and>
     same_value (Note.createdAt note) (NoteChanges.createdAt changes) \<and>
     same_value (Note.updatedAt note) (NoteChanges.updatedAt changes) \<and>
     same_value (Note.deletedAt note) (NoteChanges.deletedAt changes)"

text \<open>A payload for the note A that carries the ids of the note in a new array.\<close>

definition copied_tagIds :: NoteChanges where
  "copied_tagIds = no_changes\<lparr> NoteChanges.tagIds := Some (Array 9 [''x'']) \<rparr>"

text \<open>Two runs from the example state: one within the conditions above, one outside.\<close>

definition new_note_D :: NewNote where
  "new_note_D =
     \<lparr> NewNote.title = [], NewNote.body = [], NewNote.tagIds = Array 20 [],
       NewNote.pinned = False, NewNote.archived = False, NewNote.deletedAt = Undefined \<rparr>"

definition run_good :: "(Env \<times> AppAction) list" where
  "run_good =
     [(\<lparr> now = ''2024-02-01T00:00:00.000Z'', uuid = ''D'', heap = 30 \<rparr>, ADD_NOTE new_note_D),
      (\<lparr> now = ''2024-02-01T00:00:01.000Z'', uuid = ''E'', heap = 40 \<rparr>,
       UPDATE_NOTE ''D'' (no_changes\<lparr> NoteChanges.title := Some ''Groceries'' \<rparr>)),
      (\<lparr> now = ''2024-02-01T00:00:02.000Z'', uuid = ''F'', heap = 50 \<rparr>, DELETE_NOTE ''B''),
      (\<lparr> now = ''2024-02-01T00:00:03.000Z'', uuid = ''G'', heap = 60 \<rparr>, RESTORE_NOTE ''B'')]"

definition run_backdated :: "(Env \<times> AppAction) list" where
  "run_backdated =
     [(env_1, UPDATE_NOTE ''A''
        (no_changes\<lparr> NoteChanges.createdAt := Some ''2030-01-01T00:00:00.000Z'' \<rparr>))]"

section \<open>Selectors (AppContext.tsx, useAppSelectors)\<close>

text \<open>
  What the selectors take from the JavaScript runtime is a parameter of the model:
  \<^verbatim>\<open>String.prototype.localeCompare\<close> (a negative number, zero or a positive number, by
  the collation of the locale), \<open>getTime s\<close> for \<^verbatim>\<open>new Date(s).getTime()\<close> (\<open>None\<close>
  is \<^verbatim>\<open>NaN\<close>, the time of an invalid date), \<^verbatim>\<open>String.prototype.toLowerCase\<close>, and
  \<open>engineOrder\<close>, which stands for the order the engine's \<^verbatim>\<open>Array.prototype.sort\<close>
  leaves an array in when the comparison function is not consistent (see \<open>sort_js\<close>).
\<close>

record Runtime =
  localeCompare :: "string \<Rightarrow> string \<Rightarrow> int"
  getTime :: "string \<Rightarrow> int option"
  toLowerCase :: "string \<Rightarrow> string"
  engineOrder :: "(Note \<Rightarrow> Note \<Rightarrow> int option) \<Rightarrow> Note list \<Rightarrow> nat list"

text \<open>\<^verbatim>\<open>String.prototype.includes\<close>: the argument occurs as a substring.\<close>

fun includes_str :: "string \<Rightarrow> string \<Rightarrow> bool" where
  "includes_str [] sub = (sub = [])"
| "includes_str (c # cs) sub = (prefix sub (c # cs) \<or> includes_str cs sub)"

text \<open>
  \<^verbatim>\<open>Array.prototype.sort(compareFn)\<close>, as ECMAScript specifies it. A comparison
  function returns a number, \<open>None\<close> for \<^verbatim>\<open>NaN\<close>. It is a consistent comparison
  function for the elements of an array when, on them, it never returns \<^verbatim>\<open>NaN\<close>,
  \<open>a =\<^sub>C\<^sub>F a\<close>, \<open>a =\<^sub>C\<^sub>F b\<close> implies \<open>b =\<^sub>C\<^sub>F a\<close>, and each of \<open>=\<^sub>C\<^sub>F\<close>, \<open><\<^sub>C\<^sub>F\<close> and
  \<open>>\<^sub>C\<^sub>F\<close> is transitive (\<open>a <\<^sub>C\<^sub>F b\<close> when the function returns a negative number for
  \<open>a\<close> and \<open>b\<close>, and so on).
\<close>

fun negative :: "int option \<Rightarrow> bool" where
  "negative (Some v) = (v < 0)"
| "negative None = False"

fun positive :: "int option \<Rightarrow> bool" where
  "positive (Some v) = (v > 0)"
| "positive None = False"

definition consistent_on :: "('a \<Rightarrow> 'a \<Rightarrow> int option) \<Rightarrow> 'a list \<Rightarrow> bool" where
  "consistent_on compareFn xs \<longleftrightarrow>
     (\<forall>a \<in> set xs. \<forall>b \<in> set xs. compareFn a b \<noteq> None) \<and>
     (\<forall>a \<in> set xs. compareFn a a = Some 0) \<and>
     (\<forall>a \<in> set xs. \<forall>b \<in> set xs. compareFn a b = Some 0 \<longrightarrow> compareFn b a = Some 0) \<and>
     (\<forall>a \<in> set xs. \<forall>b \<in> set xs. \<forall>c \<in> set xs.
        compareFn a b = Some 0 \<and> compareFn b c = Some 0 \<longrightarrow> compareFn a c = Some 0) \<and>
     (\<forall>a \<in> set xs. \<forall>b \<in> set xs. \<forall>c \<in> set xs.
        negative (compareFn a b) \<and> negative (compareFn b c) \<longrightarrow> negative (compareFn a c)) \<and>
     (\<forall>a \<in> set xs. \<forall>b \<in> set xs. \<forall>c \<in> set xs.
        positive (compareFn a b) \<and> positive (compareFn b c) \<longrightarrow> positive (compareFn a c))"

text \<open>
  With a consistent comparison function the result is the one stable sort of the
  array: the elements in ascending order of the comparison, equal elements in the
  order they had. \<open>sort_by\<close> builds it by insertion, an element going before the first
  element of the sorted rest that the comparison does not put before it.
\<close>

fun number :: "int option \<Rightarrow> int" where
  "number (Some v) = v"
| "number None = 0"

fun insert_by :: "('a \<Rightarrow> 'a \<Rightarrow> int) \<Rightarrow> 'a \<Rightarrow> 'a list \<Rightarrow> 'a list" where
  "insert_by cmp x [] = [x]"
| "insert_by cmp x (y # ys) = (if cmp x y \<le> 0 then x # y # ys else y # insert_by cmp x ys)"

definition sort_by :: "('a \<Rightarrow> 'a \<Rightarrow> int) \<Rightarrow> 'a list \<Rightarrow> 'a list" where
  "sort_by cmp xs = foldr (insert_by cmp) xs []"

text \<open>
  With a comparison function that is not consistent the order is implementation-defined:
  the engine leaves the elements of the array in some order of its own. \<open>pick code xs\<close>
  is the elements of \<open>xs\<close> in the order a code gives: each number of the code takes one
  of the elements that are left, and the elements left when the code ends follow in
  their order.
\<close>

fun pick :: "nat list \<Rightarrow> 'a list \<Rightarrow> 'a list" where
  "pick [] xs = xs"
| "pick (c # code) [] = []"
| "pick (c # code) (x # xs) =
     (let i = c mod length (x # xs)
      in (x # xs) ! i # pick code (take i (x # xs) @ drop (Suc i) (x # xs)))"

definition sort_js :: "nat list \<Rightarrow> ('a \<Rightarrow> 'a \<Rightarrow> int option) \<Rightarrow> 'a list \<Rightarrow> 'a list" where
  "sort_js code compareFn xs =
     (if consistent_on compareFn xs
      then sort_by (\<lambda>a b. number (compareFn a b)) xs
      else pick code xs)"

text \<open>
  The comparison function of \<^verbatim>\<open>getFilteredNotes\<close>. A difference with \<^verbatim>\<open>NaN\<close> is
  \<^verbatim>\<open>NaN\<close>.
\<close>

definition compareNotes :: "Runtime \<Rightarrow> FilterState \<Rightarrow> Note \<Rightarrow> Note \<Rightarrow> int option" where
  "compareNotes rt fs a b =
     (if FilterState.sortBy fs = ByTitle then
        (if FilterState.sortDirection fs = Asc
         then Some (localeCompare rt (Note.title a) (Note.title b))
         else Some (localeCompare rt (Note.title b) (Note.title a)))
      else
        (let stamp_of = (if FilterState.sortBy fs = ByUpdatedAt then Note.updatedAt else Note.createdAt)
         in case (getTime rt (stamp_of a), getTime rt (stamp_of b)) of
              (Some aDate, Some bDate) \<Rightarrow>
                Some (if FilterState.sortDirection fs = Asc then aDate - bDate else bDate - aDate)
            | _ \<Rightarrow> None))"

text \<open>
  The stages of \<^verbatim>\<open>getFilteredNotes\<close>, in the order of the code; each takes the array
  the stage before it left in \<^verbatim>\<open>filtered\<close>.
\<close>

text \<open>\<^verbatim>\<open>filtered.filter((note) => !note.deletedAt)\<close>\<close>

definition excludeDeleted :: "Note list \<Rightarrow> Note list" where
  "excludeDeleted filtered = filter (\<lambda>note. \<not> truthy (Note.deletedAt note)) filtered"

text \<open>\<^verbatim>\<open>if (!filters.showArchived) filtered = filtered.filter((note) => !note.archived)\<close>\<close>

definition excludeArchived :: "FilterState \<Rightarrow> Note list \<Rightarrow> Note list" where
  "excludeArchived fs filtered =
     (if \<not> FilterState.showArchived fs
      then filter (\<lambda>note. \<not> Note.archived note) filtered else filtered)"

text \<open>
  \<^verbatim>\<open>if (filters.tags.length > 0)\<close>: under \<^verbatim>\<open>ANY\<close>,
  \<^verbatim>\<open>note.tagIds.some((id) => filters.tags.includes(id))\<close>, otherwise
  \<^verbatim>\<open>filters.tags.every((id) => note.tagIds.includes(id))\<close>.
\<close>

definition tagFilter :: "Preferences \<Rightarrow> FilterState \<Rightarrow> Note list \<Rightarrow> Note list" where
  "tagFilter prefs fs filtered =
     (if length (FilterState.tags fs) > 0
      then filter (\<lambda>note.
             if Preferences.tagFilterMode prefs = Mode_ANY
             then list_ex (\<lambda>ident. ident \<in> set (FilterState.tags fs)) (elems (Note.tagIds note))
             else list_all (\<lambda>ident. ident \<in> set (elems (Note.tagIds note))) (FilterState.tags fs))
           filtered
      else filtered)"

text \<open>\<^verbatim>\<open>if (filters.showUntagged) filtered = filtered.filter((note) => note.tagIds.length === 0)\<close>\<close>

definition untaggedFilter :: "FilterState \<Rightarrow> Note list \<Rightarrow> Note list" where
  "untaggedFilter fs filtered =
     (if FilterState.showUntagged fs
      then filter (\<lambda>note. length (elems (Note.tagIds note)) = 0) filtered else filtered)"

text \<open>\<^verbatim>\<open>if (filters.search)\<close>: the lower-cased search text occurs in the lower-cased title or body.\<close>

definition searchFilter :: "Runtime \<Rightarrow> FilterState \<Rightarrow> Note list \<Rightarrow> Note list" where
  "searchFilter rt fs filtered =
     (if FilterState.search fs \<noteq> []
      then (let search = toLowerCase rt (FilterState.search fs)
            in filter (\<lambda>note.
                 includes_str (toLowerCase rt (Note.title note)) search \<or>
                 includes_str (toLowerCase rt (Note.body note)) search)
               filtered)
      else filtered)"

text \<open>\<^verbatim>\<open>filtered.sort((a, b) => ...)\<close>\<close>

definition sortNotes :: "Runtime \<Rightarrow> FilterState \<Rightarrow> Note list \<Rightarrow> Note list" where
  "sortNotes rt fs filtered =
     sort_js (engineOrder rt (compareNotes rt fs) filtered) (compareNotes rt fs) filtered"

text \<open>\<^verbatim>\<open>if (filters.showPinned) filtered = [...pinned, ...unpinned]\<close>\<close>

definition pinToTop :: "FilterState \<Rightarrow> Note list \<Rightarrow> Note list" where
  "pinToTop fs filtered =
     (if FilterState.showPinned fs
      then filter (\<lambda>note. Note.pinned note) filtered @
           filter (\<lambda>note. \<not> Note.pinned note) filtered
      else filtered)"

definition getFilteredNotes :: "Runtime \<Rightarrow> AppState \<Rightarrow> Note list" where
  "getFilteredNotes rt state =
     (let filtered = elems (notes state);
          filtered = excludeDeleted filtered;
          filtered = excludeArchived (filters state) filtered;
          filtered = tagFilter (preferences state) (filters state) filtered;
          filtered = untaggedFilter (filters state) filtered;
          filtered = searchFilter rt (filters state) filtered;
          filtered = sortNotes rt (filters state) filtered;
          filtered = pinToTop (filters state) filtered
      in filtered)"

text \<open>
  What the filters ask of a note, in the words of the specification. The tag filter:
  under \<^verbatim>\<open>ANY\<close> the note has at least one of the filter tags, under \<^verbatim>\<open>ALL\<close> it has
  every one of them. The other filters: the note is not in the trash, it is not archived
  unless archived notes are shown, it has no tags when only untagged notes are shown,
  and the search text, if there is one, occurs in its title or body, case ignored.
\<close>

fun has_filter_tags :: "TagFilterMode \<Rightarrow> string list \<Rightarrow> Note \<Rightarrow> bool" where
  "has_filter_tags Mode_ANY ts note = (set (elems (Note.tagIds note)) \<inter> set ts \<noteq> {})"
| "has_filter_tags Mode_ALL ts note = (set ts \<subseteq> set (elems (Note.tagIds note)))"

definition passes_other_filters :: "Runtime \<Rightarrow> FilterState \<Rightarrow> Note \<Rightarrow> bool" where
  "passes_other_filters rt fs note \<longleftrightarrow>
     \<not> truthy (Note.deletedAt note) \<and>
     (Note.archived note \<longrightarrow> FilterState.showArchived fs) \<and>
     (FilterState.showUntagged fs \<longrightarrow> elems (Note.tagIds note) = []) \<and>
     (FilterState.search fs \<noteq> [] \<longrightarrow>
        includes_str (toLowerCase rt (Note.title note)) (toLowerCase rt (FilterState.search fs)) \<or>
        includes_str (toLowerCase rt (Note.body note)) (toLowerCase rt (FilterState.search fs)))"

definition passes_filters :: "Runtime \<Rightarrow> Preferences \<Rightarrow> FilterState \<Rightarrow> Note \<Rightarrow> bool" where
  "passes_filters rt prefs fs note \<longleftrightarrow>
     passes_other_filters rt fs note \<and>
     (FilterState.tags fs \<noteq> [] \<longrightarrow>
        has_filter_tags (Preferences.tagFilterMode prefs) (FilterState.tags fs) note)"

text \<open>The state with its filters replaced, and with the tag filter mode replaced.\<close>

definition with_filters :: "AppState \<Rightarrow> FilterState \<Rightarrow> AppState" where
  "with_filters state fs = state\<lparr> filters := fs \<rparr>"

definition with_mode :: "AppState \<Rightarrow> TagFilterMode \<Rightarrow> AppState" where
  "with_mode state m =
     state\<lparr> preferences := (preferences state)\<lparr> Preferences.tagFilterMode := m \<rparr> \<rparr>"

text \<open>
  A \<^verbatim>\<open>localeCompare\<close> that is a consistent comparison function for all strings, as the
  collation of every locale is.
\<close>

definition consistent :: "(string \<Rightarrow> string \<Rightarrow> int) \<Rightarrow> bool" where
  "consistent lc \<longleftrightarrow>
     (\<forall>a. lc a a = 0) \<and>
     (\<forall>a b. lc a b = 0 \<longrightarrow> lc b a = 0) \<and>
     (\<forall>a b c. lc a b = 0 \<and> lc b c = 0 \<longrightarrow> lc a c = 0) \<and>
     (\<forall>a b c. lc a b < 0 \<and> lc b c < 0 \<longrightarrow> lc a c < 0) \<and>
     (\<forall>a b c. lc a b > 0 \<and> lc b c > 0 \<longrightarrow> lc a c > 0)"

text \<open>
  A runtime for the examples, on texts of ASCII characters. \<open>lower\<close> is the lower-case
  letter of an ASCII capital. \<open>collate\<close> compares the way a collation does: by the
  letters first, whatever their case, and between texts of the same letters the one
  with the lower-case letter goes first (a before B, B before c, a before A). The
  ordering of the characters by their code is another order: there every capital goes
  before every lower-case letter (B before a).
\<close>

definition lower :: "char \<Rightarrow> char" where
  "lower c =
     (case map_of (zip ''ABCDEFGHIJKLMNOPQRSTUVWXYZ'' ''abcdefghijklmnopqrstuvwxyz'') c of
        None \<Rightarrow> c
      | Some l \<Rightarrow> l)"

definition collation_key :: "string \<Rightarrow> string \<times> bool list" where
  "collation_key s = (map lower s, map (\<lambda>c. lower c \<noteq> c) s)"

definition collate :: "string \<Rightarrow> string \<Rightarrow> int" where
  "collate a b =
     (if collation_key a < collation_key b then - 1
      else if collation_key b < collation_key a then 1
      else 0)"

text \<open>\<^verbatim>\<open>getTime\<close> on the example data: the four days of the example notes.\<close>

definition exampleTime :: "string \<Rightarrow> int option" where
  "exampleTime s =
     (if s = ''2024-01-01T00:00:00.000Z'' then Some 1704067200000
      else if s = ''2024-01-02T00:00:00.000Z'' then Some 1704153600000
      else if s = ''2024-01-03T00:00:00.000Z'' then Some 1704240000000
      else if s = ''2024-01-04T00:00:00.000Z'' then Some 1704326400000
      else None)"

definition runtime_example :: Runtime where
  "runtime_example =
     \<lparr> localeCompare = collate, getTime = exampleTime, toLowerCase = map lower,
       engineOrder = (\<lambda>compareFn xs. []) \<rparr>"

text \<open>
  Five notes: the three of the example, a note D with the tag x, in the trash, and a
  note E with the tags x and z.
\<close>

definition note_D :: Note where
  "note_D = \<lparr> Note.id = ''D'', Note.title = ''d'', Note.body = [],
     Note.tagIds = Array 11 [''x''], Note.pinned = False, Note.archived = False,
     Note.createdAt = ''2024-01-01T00:00:00.000Z'', Note.updatedAt = ''2024-01-01T00:00:00.000Z'',
     Note.deletedAt = Str ''2024-01-04T00:00:00.000Z'' \<rparr>"

definition note_E :: Note where
  "note_E = \<lparr> Note.id = ''E'', Note.title = ''B'', Note.body = [],
     Note.tagIds = Array 12 [''x'', ''z''], Note.pinned = False, Note.archived = False,
     Note.createdAt = ''2024-01-01T00:00:00.000Z'', Note.updatedAt = ''2024-01-01T00:00:00.000Z'',
     Note.deletedAt = Undefined \<rparr>"

definition state_five :: AppState where
  "state_five = state_ABC\<lparr> notes := Array 5 [note_A, note_B, note_C, note_D, note_E] \<rparr>"

text \<open>Three notes with the titles B, a and c, in this order.\<close>

definition state_BaC :: AppState where
  "state_BaC = state_ABC\<lparr> notes := Array 5 [note_A\<lparr> Note.title := ''B'' \<rparr>, note_B, note_C] \<rparr>"

text \<open>The filters that sort by title, ascending, without and with pinning.\<close>

definition by_title :: FilterState where
  "by_title = defaultFilters\<lparr> FilterState.sortBy := ByTitle, FilterState.sortDirection := Asc,
                              FilterState.showPinned := False \<rparr>"

definition by_title_pinned :: FilterState where
  "by_title_pinned = defaultFilters\<lparr> FilterState.sortBy := ByTitle, FilterState.sortDirection := Asc \<rparr>"

section \<open>JSON values and the browser's storage\<close>

text \<open>
  What \<^verbatim>\<open>JSON.parse\<close> returns: a value of JavaScript that JSON can write. Numbers are
  the integers (the data of this application has no others); an object is the list of
  its keys and values in their order, and a key is looked up from the front.
\<close>

datatype json =
    JNull
  | JBool bool
  | JNum int
  | JStr string
  | JArr "json list"
  | JObj "(string \<times> json) list"

text \<open>
  \<open>field v k\<close> is \<^verbatim>\<open>v[k]\<close> for a value that is not \<^verbatim>\<open>null\<close>: \<open>None\<close> is
  \<^verbatim>\<open>undefined\<close>. Arrays, strings, numbers and booleans have none of the keys the code
  reads.
\<close>

fun field :: "json \<Rightarrow> string \<Rightarrow> json option" where
  "field (JObj kvs) k = map_of kvs k"
| "field v k = None"

text \<open>\<^verbatim>\<open>typeof\<close>, \<^verbatim>\<open>Array.isArray\<close> and truthiness, on a value that may be \<^verbatim>\<open>undefined\<close>.\<close>

fun is_string :: "json option \<Rightarrow> bool" where
  "is_string (Some (JStr s)) = True"
| "is_string v = False"



fun isArray :: "json option \<Rightarrow> bool" where
  "isArray (Some (JArr xs)) = True"
| "isArray v = False"

fun is_object :: "json option \<Rightarrow> bool" where
  "is_object (Some (JObj kvs)) = True"
| "is_object (Some (JArr xs)) = True"
| "is_object (Some JNull) = True"
| "is_object v = False"

fun js_truthy :: "json option \<Rightarrow> bool" where
  "js_truthy None = False"
| "js_truthy (Some JNull) = False"
| "js_truthy (Some (JBool b)) = b"
| "js_truthy (Some (JNum n)) = (n \<noteq> 0)"
| "js_truthy (Some (JStr s)) = (s \<noteq> [])"
| "js_truthy (Some v) = True"

text \<open>The elements of an array, for \<^verbatim>\<open>every\<close>; no elements when the value is no array.\<close>

fun elements :: "json option \<Rightarrow> json list" where
  "elements (Some (JArr xs)) = xs"
| "elements v = []"

text \<open>
  The text \<^verbatim>\<open>JSON.stringify(value)\<close> writes, without indentation, for the length of a
  stored string. In a string the quote and the backslash are written with a backslash
  before them, backspace, tab, line feed, form feed and carriage return as a
  backslash and a letter, and every other control character as the six characters of
  \<^verbatim>\<open>\u00XX\<close>. A character of the model is one code unit of the string, below 256.
\<close>

fun string_of_nat :: "nat \<Rightarrow> string" where
  "string_of_nat n =
     (if n < 10 then [''0123456789'' ! n]
      else string_of_nat (n div 10) @ [''0123456789'' ! (n mod 10)])"

declare string_of_nat.simps [simp del]

definition string_of_int :: "int \<Rightarrow> string" where
  "string_of_int i = (if i < 0 then CHR ''-'' # string_of_nat (nat (- i)) else string_of_nat (nat i))"

definition hex_digit :: "nat \<Rightarrow> char" where
  "hex_digit n = ''0123456789abcdef'' ! n"

definition escape :: "char \<Rightarrow> string" where
  "escape c =
     (if c = CHR 0x22 \<or> c = CHR 0x5C then [CHR 0x5C, c]
      else if c = CHR 0x08 then [CHR 0x5C, CHR ''b'']
      else if c = CHR 0x09 then [CHR 0x5C, CHR ''t'']
      else if c = CHR 0x0A then [CHR 0x5C, CHR ''n'']
      else if c = CHR 0x0C then [CHR 0x5C, CHR ''f'']
      else if c = CHR 0x0D then [CHR 0x5C, CHR ''r'']
      else if c < CHR 0x20
      then [CHR 0x5C, CHR ''u'', CHR ''0'', CHR ''0'',
            hex_digit (of_char c div 16), hex_digit (of_char c mod 16)]
      else [c])"

definition quote :: "string \<Rightarrow> string" where
  "quote s = CHR 0x22 # concat (map escape s) @ [CHR 0x22]"

fun join :: "string \<Rightarrow> string list \<Rightarrow> string" where
  "join sep [] = []"
| "join sep [s] = s"
| "join sep (s # t # rest) = s @ sep @ join sep (t # rest)"

fun render :: "json \<Rightarrow> string" where
  "render JNull = ''null''"
| "render (JBool b) = (if b then ''true'' else ''false'')"
| "render (JNum n) = string_of_int n"
| "render (JStr s) = quote s"
| "render (JArr xs) = ''['' @ join '','' (map render xs) @ '']''"
| "render (JObj kvs) =
     ''{'' @ join '','' (map (\<lambda>kv. quote (fst kv) @ '':'' @ render (snd kv)) kvs) @ ''}''"

text \<open>
  A string, as \<^verbatim>\<open>JSON.parse\<close> reads it: \<open>Json v\<close> is a text that parses to \<open>v\<close>,
  which is what \<^verbatim>\<open>JSON.stringify(v)\<close> writes; \<open>Garbage s\<close> are characters that
  \<^verbatim>\<open>JSON.parse\<close> rejects with a \<^verbatim>\<open>SyntaxError\<close>, the empty string among them.
\<close>

datatype jstext = Json json | Garbage string

fun JSON_parse :: "jstext \<Rightarrow> json option" where
  "JSON_parse (Json v) = Some v"
| "JSON_parse (Garbage s) = None"

definition JSON_stringify :: "json \<Rightarrow> jstext" where
  "JSON_stringify v = Json v"

fun text_length :: "jstext \<Rightarrow> nat" where
  "text_length (Json v) = length (render v)"
| "text_length (Garbage s) = length s"

text \<open>
  The browser: the items of \<^verbatim>\<open>localStorage\<close> in the order of \<^verbatim>\<open>Object.keys\<close>, the
  number of characters (of keys and values) the store takes before it rejects a write,
  the calls of \<^verbatim>\<open>setItem\<close> it has carried out, oldest first, and the events dispatched
  on \<^verbatim>\<open>window\<close>.
\<close>

datatype DOMException = QuotaExceededError | SecurityError

datatype event =
    StorageErrorQuota string
  | StorageErrorSave string json

record Browser =
  items :: "(string \<times> jstext) list"
  quota :: nat
  writes :: "(string \<times> jstext) list"
  events :: "event list"

definition stored_size :: "(string \<times> jstext) list \<Rightarrow> nat" where
  "stored_size kvs = sum_list (map (\<lambda>kv. length (fst kv) + text_length (snd kv)) kvs)"

definition getItem :: "Browser \<Rightarrow> string \<Rightarrow> jstext option" where
  "getItem b k = map_of (items b) k"

definition setItem :: "Browser \<Rightarrow> string \<Rightarrow> jstext \<Rightarrow> DOMException + Browser" where
  "setItem b k v =
     (if stored_size (AList.update k v (items b)) \<le> quota b
      then Inr (b\<lparr> items := AList.update k v (items b), writes := writes b @ [(k, v)] \<rparr>)
      else Inl QuotaExceededError)"

definition removeItem :: "Browser \<Rightarrow> string \<Rightarrow> Browser" where
  "removeItem b k = b\<lparr> items := AList.delete k (items b) \<rparr>"

definition keys :: "Browser \<Rightarrow> string list" where
  "keys b = map fst (items b)"

section \<open>The storage adapter and import/export (storage.ts)\<close>











definition defaultPreferencesJson :: json where
  "defaultPreferencesJson =
     JObj [(''theme'', JStr ''system''), (''density'', JStr ''comfortable''),
           (''tagFilterMode'', JStr ''ANY'')]"


text \<open>
  \<^verbatim>\<open>importData\<close>. Whatever is thrown inside the \<^verbatim>\<open>try\<close> is caught and thrown again
  as a \<^verbatim>\<open>parse_error\<close>; the browser is returned as the call left it, also when it
  throws. \<open>stamp\<close> is the clock's reading for \<^verbatim>\<open>lastBackupAt\<close>; \<open>the_json\<close> reads a
  key that the validation has found.
\<close>

definition the_json :: "json option \<Rightarrow> json" where
  "the_json v = (case v of None \<Rightarrow> JNull | Some x \<Rightarrow> x)"


section \<open>Persistence of the application state (AppContext.tsx)\<close>

definition NOTES :: string where "NOTES = ''notes-app-data''"
definition TAGS :: string where "TAGS = ''notes-app-tags''"
definition PREFERENCES :: string where "PREFERENCES = ''notes-app-prefs''"
definition BACKUP_PREFIX :: string where "BACKUP_PREFIX = ''notes-backup-''"
definition METADATA :: string where "METADATA = ''notes-metadata''"

text \<open>
  The clock, read once for a call: \<^verbatim>\<open>Date.now()\<close> and
  \<^verbatim>\<open>new Date().toISOString()\<close>.
\<close>

record Clock =
  millis :: nat
  isoString :: string

text \<open>
  \<^verbatim>\<open>getStorageUsage\<close>: the characters of the stored values, and their share of
  5 MB in percent, \<^verbatim>\<open>Math.round\<close>ed.
\<close>

definition used :: "Browser \<Rightarrow> nat" where
  "used b = sum_list (map (\<lambda>kv. text_length (snd kv)) (items b))"

definition total :: nat where
  "total = 5 * 1024 * 1024"

definition percentage :: "Browser \<Rightarrow> nat" where
  "percentage b = (2 * (used b * 100) + total) div (2 * total)"

text \<open>\<^verbatim>\<open>keys.forEach(k => localStorage.removeItem(k))\<close>\<close>

definition removeItems :: "Browser \<Rightarrow> string list \<Rightarrow> Browser" where
  "removeItems b ks = foldl removeItem b ks"

text \<open>
  \<^verbatim>\<open>createBackup\<close>: a snapshot under
  \<^verbatim>\<open>`${BACKUP_PREFIX}${key}-${Date.now()}`\<close>, then all but the three last keys with
  the prefix \<^verbatim>\<open>`${BACKUP_PREFIX}${key}-`\<close>, in descending order, are removed. A write
  that throws is caught and only logged.
\<close>

definition backupKey :: "string \<Rightarrow> nat \<Rightarrow> string" where
  "backupKey k ms = BACKUP_PREFIX @ k @ ''-'' @ string_of_nat ms"

definition createBackup :: "Clock \<Rightarrow> Browser \<Rightarrow> string \<Rightarrow> json \<Rightarrow> Browser" where
  "createBackup clock b k data =
     (case setItem b (backupKey k (millis clock))
             (JSON_stringify (JObj [(''timestamp'', JStr (isoString clock)), (''data'', data),
                                    (''originalKey'', JStr k)])) of
        Inl e \<Rightarrow> b
      | Inr b1 \<Rightarrow>
          (let allKeys = keys b1;
               backupKeys = rev (sort (filter (prefix (BACKUP_PREFIX @ k @ ''-'')) allKeys))
           in removeItems b1 (drop 3 backupKeys)))"

text \<open>
  \<^verbatim>\<open>handleQuotaExceeded\<close>. \<open>baseKey\<close> is
  \<^verbatim>\<open>backupKey.split('-').slice(0, -1).join('-')\<close>, the key up to its last dash;
  \<open>backupsByKey\<close> is the \<^verbatim>\<open>Map\<close> from base keys to their backup keys, in the order
  of insertion.
\<close>

definition baseKey :: "string \<Rightarrow> string" where
  "baseKey k = rev (tl (dropWhile (\<lambda>c. c \<noteq> CHR ''-'') (rev k)))"

definition backupsByKey :: "string list \<Rightarrow> (string \<times> string list) list" where
  "backupsByKey backupKeys =
     foldl (\<lambda>m k. case map_of m (baseKey k) of
                     None \<Rightarrow> m @ [(baseKey k, [k])]
                   | Some ks \<Rightarrow> AList.update (baseKey k) (ks @ [k]) m)
       [] backupKeys"

definition handleQuotaExceeded :: "Browser \<Rightarrow> string \<Rightarrow> json \<Rightarrow> bool \<times> Browser" where
  "handleQuotaExceeded b k data =
     (let oldKeys = [''app.notes.v1'', ''app.tags.v1'', ''app.preferences.v1''];
          b1 = removeItems b
                 (filter (\<lambda>oldKey. getItem b oldKey \<noteq> None \<and> getItem b oldKey \<noteq> Some (Garbage []))
                    oldKeys);
          backupKeys = filter (prefix BACKUP_PREFIX) (keys b1);
          b2 = foldl (\<lambda>b' group. removeItems b' (tl (rev (sort (snd group)))))
                 b1 (backupsByKey backupKeys)
      in case setItem b2 k (JSON_stringify data) of
           Inr b3 \<Rightarrow> (True, b3)
         | Inl retryError \<Rightarrow> (False, b2\<lparr> events := events b2 @ [StorageErrorQuota k] \<rparr>))"

text \<open>
  \<^verbatim>\<open>saveToLocalStorage\<close>. Above 90 percent of usage every backup is removed first;
  notes and tags are backed up before they are written; then the value, then the
  metadata. What a \<^verbatim>\<open>setItem\<close> throws is caught: a \<^verbatim>\<open>QuotaExceededError\<close> goes to
  \<^verbatim>\<open>handleQuotaExceeded\<close>, anything else returns \<^verbatim>\<open>false\<close>.
\<close>

definition onSaveError :: "DOMException \<Rightarrow> Browser \<Rightarrow> string \<Rightarrow> json \<Rightarrow> bool \<times> Browser" where
  "onSaveError error b k data =
     (if error = QuotaExceededError then handleQuotaExceeded b k data else (False, b))"

definition saveToLocalStorage :: "Clock \<Rightarrow> Browser \<Rightarrow> string \<Rightarrow> json \<Rightarrow> bool \<times> Browser" where
  "saveToLocalStorage clock b k data =
     (let serialized = JSON_stringify data;
          b1 = (if percentage b > 80 \<and> percentage b > 90
                then removeItems b (filter (prefix BACKUP_PREFIX) (keys b)) else b);
          b2 = (if k = NOTES \<or> k = TAGS then createBackup clock b1 k data else b1)
      in case setItem b2 k serialized of
           Inl error \<Rightarrow> onSaveError error b2 k data
         | Inr b3 \<Rightarrow>
             (case setItem b3 METADATA
                     (JSON_stringify (JObj [(''lastSaved'', JStr (isoString clock)),
                                            (''version'', JStr ''1.0.0''),
                                            (''dataSize'', JNum (int (text_length serialized)))])) of
                Inl error \<Rightarrow> onSaveError error b3 k data
              | Inr b4 \<Rightarrow> (True, b4)))"

text \<open>
  \<^verbatim>\<open>validateData\<close>. In the checks of an element, \<^verbatim>\<open>note && ...\<close> asks for a truthy
  element before its keys are read.
\<close>

definition validNote :: "json \<Rightarrow> bool" where
  "validNote note \<longleftrightarrow>
     js_truthy (Some note) \<and>
     is_string (field note ''id'') \<and>
     is_string (field note ''title'') \<and>
     is_string (field note ''body'') \<and>
     isArray (field note ''tagIds'') \<and>
     is_string (field note ''createdAt'') \<and>
     is_string (field note ''updatedAt'')"

definition validTag :: "json \<Rightarrow> bool" where
  "validTag tag \<longleftrightarrow>
     js_truthy (Some tag) \<and>
     is_string (field tag ''id'') \<and>
     is_string (field tag ''name'') \<and>
     is_string (field tag ''createdAt'') \<and>
     is_string (field tag ''updatedAt'')"

definition validateData :: "json \<Rightarrow> string \<Rightarrow> bool" where
  "validateData data k =
     (if k = NOTES then isArray (Some data) \<and> list_all validNote (elements (Some data))
      else if k = TAGS then isArray (Some data) \<and> list_all validTag (elements (Some data))
      else if k = PREFERENCES then
        js_truthy (Some data) \<and> is_object (Some data) \<and>
        is_string (field data ''theme'') \<and>
        is_string (field data ''density'') \<and>
        is_string (field data ''tagFilterMode'')
      else True)"

text \<open>\<^verbatim>\<open>String.prototype.replace\<close> with a string pattern: the first occurrence is replaced.\<close>

fun replace :: "string \<Rightarrow> string \<Rightarrow> string \<Rightarrow> string" where
  "replace pat rep [] = (if pat = [] then rep else [])"
| "replace pat rep (c # cs) =
     (if prefix pat (c # cs) then rep @ drop (length pat) (c # cs)
      else c # replace pat rep cs)"

text \<open>
  \<^verbatim>\<open>attemptDataRecovery\<close>. The loop over the backup keys: a backup that does not
  parse, or is \<^verbatim>\<open>null\<close> (reading \<^verbatim>\<open>backup.data\<close> throws), or whose \<^verbatim>\<open>data\<close> is falsy
  or does not validate is passed over; the first one that validates is saved under the
  key and returned. \<open>None\<close>: the loop has ended without a return.
\<close>

fun recoverFrom :: "Clock \<Rightarrow> Browser \<Rightarrow> string \<Rightarrow> string list \<Rightarrow> (json \<times> Browser) option" where
  "recoverFrom clock b k [] = None"
| "recoverFrom clock b k (bk # rest) =
     (case JSON_parse (case getItem b bk of None \<Rightarrow> Garbage [] | Some item \<Rightarrow> item) of
        None \<Rightarrow> recoverFrom clock b k rest
      | Some JNull \<Rightarrow> recoverFrom clock b k rest
      | Some backup \<Rightarrow>
          if js_truthy (field backup ''data'') \<and> validateData (the_json (field backup ''data'')) k
          then Some (the_json (field backup ''data''),
                     snd (saveToLocalStorage clock b k (the_json (field backup ''data''))))
          else recoverFrom clock b k rest)"

definition recoveryPrefix :: "string \<Rightarrow> string" where
  "recoveryPrefix k = BACKUP_PREFIX @ replace ''notes-app-'' [] k @ ''-''"

definition attemptDataRecovery :: "Clock \<Rightarrow> Browser \<Rightarrow> string \<Rightarrow> json \<Rightarrow> json \<times> Browser" where
  "attemptDataRecovery clock b k defaultValue =
     (let backupKeys = rev (sort (filter (prefix (recoveryPrefix k)) (keys b)))
      in case recoverFrom clock b k backupKeys of
           Some found \<Rightarrow> found
         | None \<Rightarrow> (defaultValue, b))"

text \<open>
  \<^verbatim>\<open>loadFromLocalStorage\<close>, where \<^verbatim>\<open>localStorage\<close> is available: the default for a
  key that is absent or holds the empty string, recovery when the item does not parse
  or does not validate, the parsed value otherwise.
\<close>

definition loadFromLocalStorage :: "Clock \<Rightarrow> Browser \<Rightarrow> string \<Rightarrow> json \<Rightarrow> json \<times> Browser" where
  "loadFromLocalStorage clock b k defaultValue =
     (case getItem b k of
        None \<Rightarrow> (defaultValue, b)
      | Some item \<Rightarrow>
          if item = Garbage [] then (defaultValue, b)
          else (case JSON_parse item of
                  None \<Rightarrow> attemptDataRecovery clock b k defaultValue
                | Some parsed \<Rightarrow>
                    if \<not> validateData parsed k then attemptDataRecovery clock b k defaultValue
                    else (parsed, b)))"

text \<open>
  \<^verbatim>\<open>debouncedSave\<close> and its timer. \<open>pending\<close> is the save the one timer of
  \<^verbatim>\<open>saveTimeoutRef\<close> holds: scheduling clears the timer and sets it again; \<open>fire\<close>
  is the timer's callback, run when the 300 ms have passed.
\<close>

type_synonym timer = "(string \<times> json) option"

definition debouncedSave :: "timer \<Rightarrow> string \<Rightarrow> json \<Rightarrow> timer" where
  "debouncedSave pending k data = Some (k, data)"

definition fire :: "Clock \<Rightarrow> timer \<times> Browser \<Rightarrow> timer \<times> Browser" where
  "fire clock tb =
     (case fst tb of
        None \<Rightarrow> tb
      | Some (k, data) \<Rightarrow>
          (let (success, b) = saveToLocalStorage clock (snd tb) k data
           in (None, if \<not> success then b\<lparr> events := events b @ [StorageErrorSave k data] \<rparr> else b)))"

text \<open>
  \<^verbatim>\<open>StorageUtils.importData\<close>: reading \<^verbatim>\<open>imported.data\<close> of \<^verbatim>\<open>null\<close> throws, like a
  text that does not parse or a value without \<^verbatim>\<open>data\<close>; whatever is thrown is caught
  and \<^verbatim>\<open>false\<close> returned. What \<^verbatim>\<open>saveToLocalStorage\<close> returns is not looked at.
\<close>

definition StorageUtils_importData :: "Clock \<Rightarrow> Browser \<Rightarrow> jstext \<Rightarrow> bool \<times> Browser" where
  "StorageUtils_importData clock b jsonString =
     (case JSON_parse jsonString of
        None \<Rightarrow> (False, b)
      | Some JNull \<Rightarrow> (False, b)
      | Some imported \<Rightarrow>
          if \<not> js_truthy (field imported ''data'') then (False, b)
          else
            (let data = the_json (field imported ''data'');
                 b1 = (if isArray (field data ''notes'')
                       then snd (saveToLocalStorage clock b NOTES (the_json (field data ''notes'')))
                       else b);
                 b2 = (if isArray (field data ''tags'')
                       then snd (saveToLocalStorage clock b1 TAGS (the_json (field data ''tags'')))
                       else b1);
                 b3 = (if js_truthy (field data ''preferences'')
                       then snd (saveToLocalStorage clock b2 PREFERENCES
                                   (the_json (field data ''preferences'')))
                       else b2)
             in (True, b3)))"

section \<open>Example data for the storage\<close>




definition browser_empty :: Browser where
  "browser_empty = \<lparr> items = [], quota = 5242880, writes = [], events = [] \<rparr>"




definition note_json :: json where
  "note_json =
     JObj [(''id'', JStr ''A''), (''title'', JStr ''b''), (''body'', JStr ''Meeting Notes''),
           (''tagIds'', JArr [JStr ''x'']), (''pinned'', JBool False), (''archived'', JBool False),
           (''createdAt'', JStr ''2024-01-01T00:00:00.000Z''),
           (''updatedAt'', JStr ''2024-01-03T00:00:00.000Z'')]"

definition tag_json :: json where
  "tag_json =
     JObj [(''id'', JStr ''x''), (''name'', JStr ''work''),
           (''createdAt'', JStr ''2024-01-01T00:00:00.000Z''),
           (''updatedAt'', JStr ''2024-01-01T00:00:00.000Z'')]"


definition clock_1 :: Clock where
  "clock_1 = \<lparr> millis = 1700000000000, isoString = ''2023-11-14T22:13:20.000Z'' \<rparr>"

definition clock_2 :: Clock where
  "clock_2 = \<lparr> millis = 1700000600000, isoString = ''2023-11-14T22:23:20.000Z'' \<rparr>"

text \<open>
  The store after the notes were saved once, and the same store with the item of the
  notes cut short, so that it does not parse any more.
\<close>

definition browser_saved :: Browser where
  "browser_saved = snd (saveToLocalStorage clock_1 browser_empty NOTES (JArr [note_json]))"

definition browser_corrupted :: Browser where
  "browser_corrupted =
     browser_saved\<lparr> items := AList.update NOTES (Garbage ''[{'') (items browser_saved) \<rparr>"

text \<open>The store after the preferences were saved once.\<close>

definition browser_prefs :: Browser where
  "browser_prefs = snd (saveToLocalStorage clock_1 browser_empty PREFERENCES defaultPreferencesJson)"


section \<open>Properties of the reducer\<close>

subsection \<open>Deleting a tag\<close>

text \<open>
  Claim C1. For every state and every tag id, the one reducer transition that
  \<^verbatim>\<open>DELETE_TAG\<close> is yields a state whose tags hold no tag with that id and in which no
  note's \<^verbatim>\<open>tagIds\<close> hold that id. The transition is a single application of
  \<open>appReducer\<close>: there is no state between its argument and its result.
\<close>

theorem delete_tag_cascade:
  "(\<forall>tag \<in> set (AppState.tags (appReducer env state (DELETE_TAG ident))). Tag.id tag \<noteq> ident) \<and>
   (\<forall>note \<in> set (elems (notes (appReducer env state (DELETE_TAG ident)))).
      ident \<notin> set (elems (Note.tagIds note)))"
  by auto

theorem delete_tag_cascade_witness:
  "AppState.tags (appReducer env_1 state_ABC (DELETE_TAG ''x'')) = [tag_y] \<and>
   map (\<lambda>note. elems (Note.tagIds note))
     (elems (notes (appReducer env_1 state_ABC (DELETE_TAG ''x'')))) = [[], [''y''], [''y'']]"
  using delete_tag_cascade [of env_1 state_ABC "''x''"]
  by (simp add: state_ABC_def env_1_def note_A_def note_B_def note_C_def tag_x_def tag_y_def
      enumerate_eq_zip upt_rec)

subsection \<open>Updates that change nothing\<close>

text \<open>
  Claim C10. An \<^verbatim>\<open>UPDATE_NOTE\<close> whose id is the id of no note of the state returns the
  state it was given: the same object (the address \<open>self\<close> included), with no error and
  no timestamp touched.
\<close>

theorem update_missing_note_noop:
  "ident \<notin> set (map Note.id (elems (notes state))) \<Longrightarrow>
   appReducer env state (UPDATE_NOTE ident changes) = state"
proof -
  assume "ident \<notin> set (map Note.id (elems (notes state)))"
  then have "find (\<lambda>note. Note.id note = ident) (elems (notes state)) = None"
    by (auto simp: find_None_iff)
  then show ?thesis by simp
qed

theorem update_missing_note_noop_witness:
  "''Z'' \<notin> set (map Note.id (elems (notes state_ABC))) \<and>
   appReducer env_1 state_ABC
     (UPDATE_NOTE ''Z'' (no_changes\<lparr> NoteChanges.title := Some ''new title'' \<rparr>)) = state_ABC"
proof -
  have h: "''Z'' \<notin> set (map Note.id (elems (notes state_ABC)))"
    by (simp add: state_ABC_def note_A_def note_B_def note_C_def)
  from update_missing_note_noop [OF h] h show ?thesis by blast
qed

lemma differs_same_value: "same_value cur entry \<Longrightarrow> \<not> differs cur entry"
  by (auto simp: same_value_def)

lemma differs_ref_same_value: "same_value cur entry \<Longrightarrow> \<not> differs_ref cur entry"
  by (auto simp: same_value_def)

lemma strictly_equal_no_changes: "strictly_equal note changes \<Longrightarrow> \<not> hasChanges note changes"
  unfolding strictly_equal_def hasChanges_def
  by (simp add: differs_same_value differs_ref_same_value)

lemma strictly_equal_values: "strictly_equal note changes \<Longrightarrow> equal_values note changes"
  unfolding strictly_equal_def equal_values_def
  by (auto simp: same_value_def same_elems_def)

text \<open>
  Where every key of the payload holds what \<^verbatim>\<open>===\<close> takes for the value of the note
  that \<^verbatim>\<open>find\<close> returns, \<^verbatim>\<open>UPDATE_NOTE\<close> returns the state it was given: the same
  object, hence the same \<^verbatim>\<open>notes\<close> array, and no \<^verbatim>\<open>updatedAt\<close> is bumped.
\<close>

lemma update_strictly_equal_noop:
  assumes "find (\<lambda>note. Note.id note = ident) (elems (notes state)) = Some target"
    and "strictly_equal target changes"
  shows "appReducer env state (UPDATE_NOTE ident changes) = state"
  using assms by (simp add: strictly_equal_no_changes)

lemma update_strictly_equal_example:
  "appReducer env_1 state_ABC
     (UPDATE_NOTE ''A''
        (no_changes\<lparr> NoteChanges.title := Some ''b'', NoteChanges.tagIds := Some (Array 1 [''x'']),
           NoteChanges.deletedAt := Some Undefined \<rparr>)) = state_ABC"
proof -
  have f: "find (\<lambda>note. Note.id note = ''A'') (elems (notes state_ABC)) = Some note_A"
    by (simp add: state_ABC_def note_A_def)
  have i: "strictly_equal note_A
     (no_changes\<lparr> NoteChanges.title := Some ''b'', NoteChanges.tagIds := Some (Array 1 [''x'']),
        NoteChanges.deletedAt := Some Undefined \<rparr>)"
    by (simp add: strictly_equal_def same_value_def no_changes_def note_A_def)
  from update_strictly_equal_noop [OF f i] show ?thesis .
qed

text \<open>
  Claim C5. The claim does not hold of the reducer. The reducer's check, which its
  comment gives as \<^verbatim>\<open>Check if any values are actually different\<close>, compares with
  \<^verbatim>\<open>!==\<close>, and of an array \<^verbatim>\<open>!==\<close> sees the object, not the values in it. The state
  holds the note A with the tag ids x; the payload carries the tag ids x in a new array,
  so every value of the payload is equal to the note's. The reducer takes it for a
  change: it returns a new state object with a new \<^verbatim>\<open>notes\<close> array, in which the
  \<^verbatim>\<open>updatedAt\<close> of A has gone from 3 January to the clock's reading, 1 February.
\<close>

theorem update_equal_values_bumps:
  "find (\<lambda>note. Note.id note = ''A'') (elems (notes state_ABC)) = Some note_A \<and>
   equal_values note_A copied_tagIds \<and>
   appReducer env_1 state_ABC (UPDATE_NOTE ''A'' copied_tagIds)
     = state_ABC\<lparr> self := 6, notes := Array 7
         [note_A\<lparr> Note.tagIds := Array 9 [''x''],
                  Note.updatedAt := ''2024-02-01T00:00:00.000Z'' \<rparr>,
          note_B, note_C] \<rparr> \<and>
   appReducer env_1 state_ABC (UPDATE_NOTE ''A'' copied_tagIds) \<noteq> state_ABC \<and>
   notes (appReducer env_1 state_ABC (UPDATE_NOTE ''A'' copied_tagIds)) \<noteq> notes state_ABC \<and>
   Note.updatedAt note_A = ''2024-01-03T00:00:00.000Z''"
proof -
  have f: "find (\<lambda>note. Note.id note = ''A'') (elems (notes state_ABC)) = Some note_A"
    by (simp add: state_ABC_def note_A_def)
  have e: "equal_values note_A copied_tagIds"
    by (simp add: equal_values_def same_value_def same_elems_def copied_tagIds_def
        no_changes_def note_A_def)
  have r: "appReducer env_1 state_ABC (UPDATE_NOTE ''A'' copied_tagIds)
     = state_ABC\<lparr> self := 6, notes := Array 7
         [note_A\<lparr> Note.tagIds := Array 9 [''x''],
                  Note.updatedAt := ''2024-02-01T00:00:00.000Z'' \<rparr>,
          note_B, note_C] \<rparr>"
    by (simp add: state_ABC_def env_1_def copied_tagIds_def no_changes_def note_A_def note_B_def
        note_C_def hasChanges_def updateNote_def)
  have d: "appReducer env_1 state_ABC (UPDATE_NOTE ''A'' copied_tagIds) \<noteq> state_ABC"
    unfolding r by (simp add: state_ABC_def)
  have n: "notes (appReducer env_1 state_ABC (UPDATE_NOTE ''A'' copied_tagIds)) \<noteq> notes state_ABC"
    unfolding r by (simp add: state_ABC_def)
  have u: "Note.updatedAt note_A = ''2024-01-03T00:00:00.000Z''"
    by (simp add: note_A_def)
  from f e r d n u show ?thesis by blast
qed

subsection \<open>The invariant of the notes along a run\<close>

lemma id_update:
  "Note.id \<circ> (\<lambda>note. if Note.id note = ident then updateNote t changes note else note) = Note.id"
  by (auto simp: fun_eq_iff updateNote_def)

lemma id_delete:
  "Note.id \<circ> (\<lambda>note. if Note.id note = ident then note\<lparr> Note.deletedAt := d \<rparr> else note)
     = Note.id"
  by (auto simp: fun_eq_iff)

lemma step_preserves:
  assumes "note_invariant state" and "admissible state (env, action)"
  shows "note_invariant (appReducer env state action)"
proof (cases action)
  case (ADD_NOTE payload)
  with assms show ?thesis
    by (auto simp: note_invariant_def ids_unique_def timestamps_ordered_def newNote_def)
next
  case (UPDATE_NOTE ident changes)
  with assms show ?thesis
    by (auto simp: note_invariant_def ids_unique_def timestamps_ordered_def id_update
        list_all_iff updateNote_def split: option.splits)
next
  case (DELETE_NOTE ident)
  with assms show ?thesis
    by (auto simp: note_invariant_def ids_unique_def timestamps_ordered_def list_all_iff id_delete)
next
  case (RESTORE_NOTE ident)
  with assms show ?thesis
    by (auto simp: note_invariant_def ids_unique_def timestamps_ordered_def list_all_iff id_delete)
qed (use assms in auto)

text \<open>
  Claim C2, as amended. Along every finite run of \<^verbatim>\<open>ADD_NOTE\<close>, \<^verbatim>\<open>UPDATE_NOTE\<close>,
  \<^verbatim>\<open>DELETE_NOTE\<close> and \<^verbatim>\<open>RESTORE_NOTE\<close> actions that starts in a state with pairwise
  distinct note ids and \<^verbatim>\<open>createdAt\<close> \<open>\<le>\<close> \<^verbatim>\<open>updatedAt\<close> on every note, in which every
  \<^verbatim>\<open>ADD_NOTE\<close> receives an id no note of the state has and every \<^verbatim>\<open>UPDATE_NOTE\<close> reads
  a clock not earlier than the \<^verbatim>\<open>createdAt\<close> the updated note ends with, the resulting
  state has pairwise distinct note ids and \<^verbatim>\<open>createdAt\<close> \<open>\<le>\<close> \<^verbatim>\<open>updatedAt\<close> on every note.
\<close>

theorem note_invariant_run:
  "note_invariant state \<Longrightarrow> admissible_run state steps \<Longrightarrow> note_invariant (run state steps)"
proof (induction steps arbitrary: state)
  case Nil
  then show ?case by simp
next
  case (Cons step steps)
  obtain env action where s: "step = (env, action)" by (cases step)
  from Cons.prems have "note_invariant (appReducer env state action)"
    by (simp add: s step_preserves)
  moreover from Cons.prems have "admissible_run (appReducer env state action) steps"
    by (simp add: s)
  ultimately show ?case using Cons.IH by (simp add: s)
qed

theorem note_invariant_run_witness:
  "note_invariant state_ABC \<and> admissible_run state_ABC run_good \<and>
   note_invariant (run state_ABC run_good) \<and>
   map Note.id (elems (notes (run state_ABC run_good))) = [''D'', ''A'', ''B'', ''C'']"
proof -
  have i: "note_invariant state_ABC"
    by (simp add: note_invariant_def ids_unique_def timestamps_ordered_def state_ABC_def
        note_A_def note_B_def note_C_def)
  have a: "admissible_run state_ABC run_good"
    by (simp add: run_good_def state_ABC_def note_A_def note_B_def note_C_def new_note_D_def
        newNote_def no_changes_def hasChanges_def updateNote_def)
  have r: "map Note.id (elems (notes (run state_ABC run_good))) = [''D'', ''A'', ''B'', ''C'']"
    by (simp add: run_good_def state_ABC_def note_A_def note_B_def note_C_def new_note_D_def
        newNote_def no_changes_def hasChanges_def updateNote_def)
  from note_invariant_run [OF i a] i a r show ?thesis by blast
qed

text \<open>
  The claim as it stands fails: the payload of \<^verbatim>\<open>UPDATE_NOTE\<close> may carry a
  \<^verbatim>\<open>createdAt\<close>, which the merge writes into the note while \<^verbatim>\<open>updatedAt\<close> becomes the
  clock's reading. Here the state satisfies the invariant, the one action is an
  \<^verbatim>\<open>UPDATE_NOTE\<close>, the clock is later than every \<^verbatim>\<open>createdAt\<close> of the state, and the
  note ends with \<^verbatim>\<open>createdAt\<close> in 2030 and \<^verbatim>\<open>updatedAt\<close> in 2024.
\<close>

theorem note_invariant_counterexample:
  "note_invariant state_ABC \<and>
   list_all note_action (map snd run_backdated) \<and>
   list_all (\<lambda>note. Note.createdAt note \<le> now env_1) (elems (notes state_ABC)) \<and>
   \<not> note_invariant (run state_ABC run_backdated)"
  by (simp add: note_invariant_def ids_unique_def timestamps_ordered_def state_ABC_def
      note_A_def note_B_def note_C_def run_backdated_def env_1_def no_changes_def
      hasChanges_def updateNote_def)

section \<open>Properties of the selectors\<close>

subsection \<open>Sorting\<close>

lemma set_insert_by: "set (insert_by cmp x xs) = insert x (set xs)"
  by (induction xs) auto

lemma mset_insert_by: "mset (insert_by cmp x xs) = add_mset x (mset xs)"
  by (induction xs) auto

lemma mset_sort_by: "mset (sort_by cmp xs) = mset xs"
  by (induction xs) (simp_all add: sort_by_def mset_insert_by)

lemma mset_pick: "mset (pick code xs) = mset xs"
proof (induction code xs rule: pick.induct)
  case (3 c code x xs)
  let ?ys = "x # xs"
  let ?i = "c mod length ?ys"
  have i: "?i < length ?ys" by simp
  have "mset (pick (c # code) ?ys) = add_mset (?ys ! ?i) (mset (take ?i ?ys @ drop (Suc ?i) ?ys))"
    using 3 by (simp add: Let_def del: nth_Cons_Suc take_Suc_Cons drop_Suc_Cons)
  also have "\<dots> = mset (take ?i ?ys @ ?ys ! ?i # drop (Suc ?i) ?ys)"
    by simp
  also have "\<dots> = mset ?ys"
    using id_take_nth_drop [OF i] by simp
  finally show ?case .
qed simp_all

text \<open>Every order of the elements is the order some code gives.\<close>

lemma pick_any_order:
  assumes "mset ys = mset xs"
  shows "\<exists>code. pick code xs = ys"
  using assms
proof (induction ys arbitrary: xs)
  case Nil
  then have "pick [] xs = []" by simp
  then show ?case ..
next
  case (Cons y ys)
  from Cons.prems have "y \<in> set xs"
    by (metis list.set_intros(1) mset_eq_setD)
  then obtain i where i: "i < length xs" "xs ! i = y"
    by (auto simp: in_set_conv_nth)
  let ?rest = "take i xs @ drop (Suc i) xs"
  from id_take_nth_drop [OF i(1)] i(2) have "xs = take i xs @ y # drop (Suc i) xs"
    by simp
  then have "mset xs = add_mset y (mset ?rest)"
    by (metis mset.simps(2) mset_append union_mset_add_mset_right)
  with Cons.prems have "mset ys = mset ?rest" by simp
  from Cons.IH [OF this] obtain code where code: "pick code ?rest = ys" ..
  from i(1) obtain x xs0 where xs: "xs = x # xs0" by (cases xs) auto
  have "pick (i # code) (x # xs0) = (x # xs0) ! i # pick code (take i (x # xs0) @ drop (Suc i) (x # xs0))"
    using i(1) unfolding xs by (simp add: Let_def del: nth_Cons_Suc take_Suc_Cons drop_Suc_Cons)
  with code i(2) have "pick (i # code) xs = y # ys"
    unfolding xs by simp
  then show ?case ..
qed

lemma mset_sort_js: "mset (sort_js code compareFn xs) = mset xs"
  by (simp add: sort_js_def mset_sort_by mset_pick)

lemma sorted_insert_by:
  assumes total: "\<And>a b. cmp a b \<le> 0 \<or> cmp b a \<le> 0"
    and trans: "\<And>a b c. cmp a b \<le> 0 \<Longrightarrow> cmp b c \<le> 0 \<Longrightarrow> cmp a c \<le> 0"
    and sorted: "sorted_wrt (\<lambda>a b. cmp a b \<le> 0) ys"
  shows "sorted_wrt (\<lambda>a b. cmp a b \<le> 0) (insert_by cmp x ys)"
  using sorted
proof (induction ys)
  case Nil
  then show ?case by simp
next
  case (Cons y ys)
  show ?case
  proof (cases "cmp x y \<le> 0")
    case True
    with Cons.prems trans show ?thesis by auto
  next
    case False
    with total have "cmp y x \<le> 0" by blast
    with False Cons show ?thesis by (auto simp: set_insert_by)
  qed
qed

lemma sorted_sort_by:
  assumes "\<And>a b. cmp a b \<le> 0 \<or> cmp b a \<le> 0"
    and "\<And>a b c. cmp a b \<le> 0 \<Longrightarrow> cmp b c \<le> 0 \<Longrightarrow> cmp a c \<le> 0"
  shows "sorted_wrt (\<lambda>a b. cmp a b \<le> 0) (sort_by cmp xs)"
proof (induction xs)
  case Nil
  show ?case by (simp add: sort_by_def)
next
  case (Cons x xs)
  have "sort_by cmp (x # xs) = insert_by cmp x (sort_by cmp xs)"
    by (simp add: sort_by_def)
  with Cons sorted_insert_by [of cmp "sort_by cmp xs" x] assms show ?case
    by metis
qed

text \<open>What follows of a consistent \<^verbatim>\<open>localeCompare\<close>.\<close>

lemma consistent_refl: "consistent lc \<Longrightarrow> lc a a = 0"
  by (simp add: consistent_def)

lemma consistent_sym: "consistent lc \<Longrightarrow> lc a b = 0 \<Longrightarrow> lc b a = 0"
  unfolding consistent_def by blast

lemma consistent_less_trans: "consistent lc \<Longrightarrow> lc a b < 0 \<Longrightarrow> lc b c < 0 \<Longrightarrow> lc a c < 0"
  unfolding consistent_def by blast

lemma consistent_greater_trans: "consistent lc \<Longrightarrow> lc a b > 0 \<Longrightarrow> lc b c > 0 \<Longrightarrow> lc a c > 0"
  unfolding consistent_def by blast

lemma consistent_eq_trans: "consistent lc \<Longrightarrow> lc a b = 0 \<Longrightarrow> lc b c = 0 \<Longrightarrow> lc a c = 0"
  unfolding consistent_def by blast

lemma consistent_flip:
  assumes "consistent lc" and "lc a b > 0"
  shows "lc b a < 0"
proof (rule ccontr)
  assume "\<not> lc b a < 0"
  then consider "lc b a = 0" | "lc b a > 0" by linarith
  then show False
  proof cases
    case 1
    with assms consistent_sym [of lc b a] show False by simp
  next
    case 2
    with assms consistent_greater_trans [of lc a b a] consistent_refl [of lc a]
    show False by simp
  qed
qed

lemma consistent_flip':
  assumes "consistent lc" and "lc a b < 0"
  shows "lc b a > 0"
proof (rule ccontr)
  assume "\<not> lc b a > 0"
  then consider "lc b a = 0" | "lc b a < 0" by linarith
  then show False
  proof cases
    case 1
    with assms consistent_sym [of lc b a] show False by simp
  next
    case 2
    with assms consistent_less_trans [of lc a b a] consistent_refl [of lc a]
    show False by simp
  qed
qed

lemma consistent_total:
  assumes "consistent lc"
  shows "lc a b \<le> 0 \<or> lc b a \<le> 0"
  using consistent_flip [OF assms, of a b] by linarith

lemma consistent_trans:
  assumes c: "consistent lc" and ab: "lc a b \<le> 0" and bc: "lc b c \<le> 0"
  shows "lc a c \<le> 0"
proof (rule ccontr)
  assume "\<not> lc a c \<le> 0"
  then have ac: "lc a c > 0" by simp
  then have ca: "lc c a < 0" using c consistent_flip by blast
  consider "lc a b < 0" "lc b c < 0" | "lc a b = 0" "lc b c = 0"
    | "lc a b < 0" "lc b c = 0" | "lc a b = 0" "lc b c < 0"
    using ab bc by linarith
  then show False
  proof cases
    case 1
    with c consistent_less_trans [of lc a b c] ac show False by simp
  next
    case 2
    with c consistent_eq_trans [of lc a b c] ac show False by simp
  next
    case 3
    from c ca 3(1) have "lc c b < 0" by (rule consistent_less_trans)
    moreover from c 3(2) have "lc c b = 0" by (rule consistent_sym)
    ultimately show False by simp
  next
    case 4
    from c 4(2) ca have "lc b a < 0" by (rule consistent_less_trans)
    moreover from c 4(1) have "lc b a = 0" by (rule consistent_sym)
    ultimately show False by simp
  qed
qed

lemma compareNotes_title:
  "FilterState.sortBy fs = ByTitle \<Longrightarrow> FilterState.sortDirection fs = Asc \<Longrightarrow>
   compareNotes rt fs a b = Some (localeCompare rt (Note.title a) (Note.title b))"
  by (simp add: compareNotes_def)

lemma consistent_on_title:
  assumes c: "consistent (localeCompare rt)"
    and "FilterState.sortBy fs = ByTitle" and "FilterState.sortDirection fs = Asc"
  shows "consistent_on (compareNotes rt fs) xs"
  unfolding consistent_on_def compareNotes_title [OF assms(2,3)]
proof (intro conjI ballI impI)
  fix a b :: Note
  show "Some (localeCompare rt (Note.title a) (Note.title b)) \<noteq> None" by simp
next
  fix a :: Note
  show "Some (localeCompare rt (Note.title a) (Note.title a)) = Some 0"
    using consistent_refl [OF c] by simp
next
  fix a b :: Note
  assume "Some (localeCompare rt (Note.title a) (Note.title b)) = Some 0"
  then show "Some (localeCompare rt (Note.title b) (Note.title a)) = Some 0"
    using consistent_sym [OF c] by simp
next
  fix a b d :: Note
  assume "Some (localeCompare rt (Note.title a) (Note.title b)) = Some 0 \<and>
          Some (localeCompare rt (Note.title b) (Note.title d)) = Some 0"
  then show "Some (localeCompare rt (Note.title a) (Note.title d)) = Some 0"
    using consistent_eq_trans [OF c, of "Note.title a" "Note.title b" "Note.title d"] by simp
next
  fix a b d :: Note
  assume "negative (Some (localeCompare rt (Note.title a) (Note.title b))) \<and>
          negative (Some (localeCompare rt (Note.title b) (Note.title d)))"
  then show "negative (Some (localeCompare rt (Note.title a) (Note.title d)))"
    using consistent_less_trans [OF c, of "Note.title a" "Note.title b" "Note.title d"] by simp
next
  fix a b d :: Note
  assume "positive (Some (localeCompare rt (Note.title a) (Note.title b))) \<and>
          positive (Some (localeCompare rt (Note.title b) (Note.title d)))"
  then show "positive (Some (localeCompare rt (Note.title a) (Note.title d)))"
    using consistent_greater_trans [OF c, of "Note.title a" "Note.title b" "Note.title d"] by simp
qed

lemma sortNotes_title:
  assumes "consistent (localeCompare rt)"
    and "FilterState.sortBy fs = ByTitle" and "FilterState.sortDirection fs = Asc"
  shows "sortNotes rt fs xs = sort_by (\<lambda>a b. localeCompare rt (Note.title a) (Note.title b)) xs"
  by (simp add: sortNotes_def sort_js_def consistent_on_title [OF assms]
      compareNotes_title [OF assms(2,3)])

lemma sorted_sortNotes_title:
  assumes "consistent (localeCompare rt)"
    and "FilterState.sortBy fs = ByTitle" and "FilterState.sortDirection fs = Asc"
  shows "sorted_wrt (\<lambda>a b. localeCompare rt (Note.title a) (Note.title b) \<le> 0) (sortNotes rt fs xs)"
  unfolding sortNotes_title [OF assms]
proof (rule sorted_sort_by)
  show "localeCompare rt (Note.title a) (Note.title b) \<le> 0 \<or>
        localeCompare rt (Note.title b) (Note.title a) \<le> 0" for a b
    using assms(1) by (rule consistent_total)
  show "localeCompare rt (Note.title a) (Note.title b) \<le> 0 \<Longrightarrow>
        localeCompare rt (Note.title b) (Note.title c) \<le> 0 \<Longrightarrow>
        localeCompare rt (Note.title a) (Note.title c) \<le> 0" for a b c
    using assms(1) by (rule consistent_trans)
qed

lemma mset_sortNotes: "mset (sortNotes rt fs xs) = mset xs"
  by (simp add: sortNotes_def mset_sort_js)

subsection \<open>The stages of the selector\<close>

lemma getFilteredNotes_stages:
  "getFilteredNotes rt state =
     pinToTop (filters state) (sortNotes rt (filters state)
       (searchFilter rt (filters state) (untaggedFilter (filters state)
         (tagFilter (preferences state) (filters state)
           (excludeArchived (filters state) (excludeDeleted (elems (notes state))))))))"
  by (simp add: getFilteredNotes_def)

lemma mset_pinToTop: "mset (pinToTop fs xs) = mset xs"
  by (simp add: pinToTop_def)

lemma tagFilter_filter:
  "tagFilter prefs fs xs =
     filter (\<lambda>note. FilterState.tags fs \<noteq> [] \<longrightarrow>
               has_filter_tags (Preferences.tagFilterMode prefs) (FilterState.tags fs) note) xs"
proof (cases "Preferences.tagFilterMode prefs")
  case Mode_ANY
  then show ?thesis
    by (auto simp: tagFilter_def list_ex_iff intro!: filter_cong)
next
  case Mode_ALL
  then show ?thesis
    by (auto simp: tagFilter_def list_all_iff intro!: filter_cong)
qed

lemma stages_filter:
  "searchFilter rt fs (untaggedFilter fs (tagFilter prefs fs
     (excludeArchived fs (excludeDeleted xs))))
   = filter (passes_filters rt prefs fs) xs"
  unfolding tagFilter_filter
  by (auto simp: searchFilter_def untaggedFilter_def excludeArchived_def excludeDeleted_def
      passes_filters_def passes_other_filters_def Let_def intro!: filter_cong)

lemma mset_getFilteredNotes:
  "mset (getFilteredNotes rt state) =
     mset (filter (passes_filters rt (preferences state) (filters state)) (elems (notes state)))"
  by (simp only: getFilteredNotes_stages mset_pinToTop mset_sortNotes stages_filter)

subsection \<open>The tag filter\<close>

lemma tag_filter_mset:
  assumes "FilterState.tags (filters state) \<noteq> []"
  shows "mset (getFilteredNotes rt state) =
     mset (filter (\<lambda>note. passes_other_filters rt (filters state) note \<and>
                     has_filter_tags (Preferences.tagFilterMode (preferences state))
                       (FilterState.tags (filters state)) note)
            (elems (notes state)))"
  unfolding mset_getFilteredNotes
  using assms by (simp add: passes_filters_def)

lemma example_any:
  "mset (getFilteredNotes rt
          (with_filters state_ABC (defaultFilters\<lparr> FilterState.tags := [''x''] \<rparr>)))
     = {#note_A, note_C#}"
  unfolding mset_getFilteredNotes
  by (simp add: with_filters_def state_ABC_def passes_filters_def passes_other_filters_def
      defaultFilters_def defaultPreferences_def note_A_def note_B_def note_C_def)

lemma example_all:
  "mset (getFilteredNotes rt
          (with_mode (with_filters state_ABC
                        (defaultFilters\<lparr> FilterState.tags := [''x'', ''y''] \<rparr>)) Mode_ALL))
     = {#note_C#}"
  unfolding mset_getFilteredNotes
  by (simp add: with_filters_def with_mode_def state_ABC_def passes_filters_def
      passes_other_filters_def defaultFilters_def defaultPreferences_def
      note_A_def note_B_def note_C_def)

text \<open>
  Claim C7. With a non-empty list of filter tags, what \<^verbatim>\<open>getFilteredNotes\<close> returns
  holds exactly the notes of the state's collection, each as often as it is there, that
  pass the other filters and that, under \<^verbatim>\<open>ANY\<close>, have at least one of the filter tags
  and, under \<^verbatim>\<open>ALL\<close>, have every filter tag. For the notes A (tags x), B (tags y) and
  C (tags x and y): \<^verbatim>\<open>ANY\<close> with the filter x keeps A and C, \<^verbatim>\<open>ALL\<close> with the filter
  x, y keeps C only. This holds whatever the runtime.
\<close>

theorem tag_filter_exact:
  "(FilterState.tags (filters state) \<noteq> [] \<longrightarrow>
      mset (getFilteredNotes rt state) =
        mset (filter (\<lambda>note. passes_other_filters rt (filters state) note \<and>
                        has_filter_tags (Preferences.tagFilterMode (preferences state))
                          (FilterState.tags (filters state)) note)
               (elems (notes state)))) \<and>
   mset (getFilteredNotes rt
          (with_filters state_ABC (defaultFilters\<lparr> FilterState.tags := [''x''] \<rparr>)))
     = {#note_A, note_C#} \<and>
   mset (getFilteredNotes rt
          (with_mode (with_filters state_ABC
                        (defaultFilters\<lparr> FilterState.tags := [''x'', ''y''] \<rparr>)) Mode_ALL))
     = {#note_C#}"
  using tag_filter_mset example_any example_all by blast

lemma passing_five:
  "filter (\<lambda>note. passes_other_filters rt (defaultFilters\<lparr> FilterState.tags := [''x''] \<rparr>) note \<and>
             has_filter_tags Mode_ANY [''x''] note)
     [note_A, note_B, note_C, note_D, note_E] = [note_A, note_C, note_E]"
  by (simp add: passes_other_filters_def defaultFilters_def
      note_A_def note_B_def note_C_def note_D_def note_E_def)

lemma exampleTime_days [simp]:
  "exampleTime ''2024-01-01T00:00:00.000Z'' = Some 1704067200000"
  "exampleTime ''2024-01-02T00:00:00.000Z'' = Some 1704153600000"
  "exampleTime ''2024-01-03T00:00:00.000Z'' = Some 1704240000000"
  "exampleTime ''2024-01-04T00:00:00.000Z'' = Some 1704326400000"
  by (simp_all add: exampleTime_def)

lemma sorted_five:
  "sortNotes runtime_example (defaultFilters\<lparr> FilterState.tags := [''x''] \<rparr>)
     [note_A, note_C, note_E] = [note_C, note_A, note_E]"
  by (simp add: sortNotes_def sort_js_def consistent_on_def compareNotes_def sort_by_def
      runtime_example_def defaultFilters_def note_A_def note_C_def note_E_def)

theorem tag_filter_exact_witness:
  "FilterState.tags
     (filters (with_filters state_five (defaultFilters\<lparr> FilterState.tags := [''x''] \<rparr>))) \<noteq> [] \<and>
   mset (getFilteredNotes runtime_example
          (with_filters state_five (defaultFilters\<lparr> FilterState.tags := [''x''] \<rparr>)))
     = {#note_A, note_C, note_E#} \<and>
   getFilteredNotes runtime_example
     (with_filters state_five (defaultFilters\<lparr> FilterState.tags := [''x''] \<rparr>))
     = [note_C, note_A, note_E]"
proof -
  let ?fs = "defaultFilters\<lparr> FilterState.tags := [''x''] \<rparr>"
  let ?s = "with_filters state_five ?fs"
  have h: "FilterState.tags (filters ?s) \<noteq> []"
    by (simp add: with_filters_def)
  have s: "filters ?s = ?fs" "Preferences.tagFilterMode (preferences ?s) = Mode_ANY"
    "elems (notes ?s) = [note_A, note_B, note_C, note_D, note_E]"
    "FilterState.tags ?fs = [''x'']"
    by (simp_all add: with_filters_def state_five_def state_ABC_def defaultPreferences_def)
  from tag_filter_exact [of ?s runtime_example] h
  have m: "mset (getFilteredNotes runtime_example ?s) = {#note_A, note_C, note_E#}"
    unfolding s passing_five by simp
  have p: "passes_filters rt (preferences ?s) ?fs =
             (\<lambda>note. passes_other_filters rt ?fs note \<and> has_filter_tags Mode_ANY [''x''] note)" for rt
    by (simp add: passes_filters_def s fun_eq_iff)
  have e: "getFilteredNotes runtime_example ?s = [note_C, note_A, note_E]"
    unfolding getFilteredNotes_stages stages_filter s p passing_five sorted_five
    by (simp add: pinToTop_def defaultFilters_def note_A_def note_C_def note_E_def)
  from h m e show ?thesis by blast
qed

subsection \<open>The order of the result\<close>

lemma title_sorted:
  assumes "consistent (localeCompare rt)"
    and "FilterState.sortBy (filters state) = ByTitle"
    and "FilterState.sortDirection (filters state) = Asc"
    and "\<not> FilterState.showPinned (filters state)"
  shows "sorted_wrt (\<lambda>a b. localeCompare rt (Note.title a) (Note.title b) \<le> 0)
           (getFilteredNotes rt state)"
  using sorted_sortNotes_title [OF assms(1-3)] assms(4)
  by (simp add: getFilteredNotes_stages pinToTop_def)

lemma passing_ABC:
  "filter (passes_filters rt defaultPreferences by_title) [note_A, note_B, note_C]
     = [note_A, note_B, note_C]"
  by (simp add: passes_filters_def passes_other_filters_def by_title_def defaultFilters_def
      note_A_def note_B_def note_C_def)

lemma title_example:
  assumes c: "consistent (localeCompare rt)"
    and ab: "localeCompare rt ''a'' ''b'' < 0" and bc: "localeCompare rt ''b'' ''c'' < 0"
  shows "map Note.title (getFilteredNotes rt (with_filters state_ABC by_title))
         = [''a'', ''b'', ''c'']"
proof -
  have f: "FilterState.sortBy by_title = ByTitle" "FilterState.sortDirection by_title = Asc"
    "\<not> FilterState.showPinned by_title"
    by (simp_all add: by_title_def)
  have s: "filters (with_filters state_ABC by_title) = by_title"
    "preferences (with_filters state_ABC by_title) = defaultPreferences"
    "elems (notes (with_filters state_ABC by_title)) = [note_A, note_B, note_C]"
    by (simp_all add: with_filters_def state_ABC_def)
  from c ab have ba: "\<not> localeCompare rt ''b'' ''a'' \<le> 0"
    using consistent_flip' [of "localeCompare rt" "''a''" "''b''"] by simp
  from c ab bc have ac: "localeCompare rt ''a'' ''c'' \<le> 0"
    using consistent_less_trans [of "localeCompare rt" "''a''" "''b''" "''c''"] by simp
  from bc have bc': "localeCompare rt ''b'' ''c'' \<le> 0" by simp
  have "sortNotes rt by_title [note_A, note_B, note_C] = [note_B, note_A, note_C]"
    unfolding sortNotes_title [OF c f(1,2)]
    using ba ac bc' by (simp add: sort_by_def note_A_def note_B_def note_C_def)
  then show ?thesis
    unfolding getFilteredNotes_stages stages_filter s passing_ABC
    by (simp add: pinToTop_def f note_A_def note_B_def note_C_def)
qed

lemma compareNotes_showPinned:
  "compareNotes rt (fs\<lparr> FilterState.showPinned := b \<rparr>) = compareNotes rt fs"
  by (auto simp: compareNotes_def fun_eq_iff Let_def split: option.splits)

lemma stages_showPinned:
  "sortNotes rt (fs\<lparr> FilterState.showPinned := b \<rparr>) = sortNotes rt fs"
  "searchFilter rt (fs\<lparr> FilterState.showPinned := b \<rparr>) = searchFilter rt fs"
  "untaggedFilter (fs\<lparr> FilterState.showPinned := b \<rparr>) = untaggedFilter fs"
  "tagFilter prefs (fs\<lparr> FilterState.showPinned := b \<rparr>) = tagFilter prefs fs"
  "excludeArchived (fs\<lparr> FilterState.showPinned := b \<rparr>) = excludeArchived fs"
  by (simp_all add: sortNotes_def compareNotes_showPinned searchFilter_def untaggedFilter_def
      tagFilter_def excludeArchived_def fun_eq_iff)

lemma pinned_partition:
  assumes "FilterState.showPinned (filters state)"
  shows "getFilteredNotes rt state =
     filter (\<lambda>note. Note.pinned note)
       (getFilteredNotes rt
          (with_filters state ((filters state)\<lparr> FilterState.showPinned := False \<rparr>))) @
     filter (\<lambda>note. \<not> Note.pinned note)
       (getFilteredNotes rt
          (with_filters state ((filters state)\<lparr> FilterState.showPinned := False \<rparr>)))"
  using assms
  by (simp add: getFilteredNotes_stages with_filters_def stages_showPinned pinToTop_def)

text \<open>The comparison of the example runtime.\<close>

lemma collate_sign:
  "collate a b < 0 \<longleftrightarrow> collation_key a < collation_key b"
  "collate a b > 0 \<longleftrightarrow> collation_key b < collation_key a"
  "collate a b = 0 \<longleftrightarrow> collation_key a = collation_key b"
  by (auto simp: collate_def)

lemma consistent_collate: "consistent collate"
  unfolding consistent_def collate_sign by auto

lemma lower_letters [simp]:
  "lower CHR ''a'' = CHR ''a''" "lower CHR ''b'' = CHR ''b''" "lower CHR ''c'' = CHR ''c''"
  "lower CHR ''d'' = CHR ''d''" "lower CHR ''B'' = CHR ''b''"
  by (simp_all add: lower_def)

text \<open>
  Claim C8, as amended. The comparison of titles the code sorts by is
  \<^verbatim>\<open>localeCompare\<close>, which the runtime provides. What \<^verbatim>\<open>getFilteredNotes\<close> returns
  holds exactly the notes of the state's collection that pass the filters, each as often
  as it is there. (1) With \<^verbatim>\<open>sortBy = title\<close> and \<^verbatim>\<open>sortDirection = asc\<close>, and a
  \<^verbatim>\<open>localeCompare\<close> that is a consistent comparison, the result before pinning is in
  ascending order of \<^verbatim>\<open>localeCompare\<close> on the titles. (2) When \<^verbatim>\<open>localeCompare\<close>
  puts a before b and b before c, the titles b, a, c come out as a, b, c. (3) With
  \<^verbatim>\<open>showPinned\<close>, whatever the sort field and direction, the result is the pinned notes
  of the result without pinning followed by its unpinned notes, each in the order the
  sort left them in.
\<close>

theorem title_sort_and_pinning:
  "mset (getFilteredNotes rt state) =
     mset (filter (passes_filters rt (preferences state) (filters state)) (elems (notes state))) \<and>
   (consistent (localeCompare rt) \<and> FilterState.sortBy (filters state) = ByTitle \<and>
    FilterState.sortDirection (filters state) = Asc \<and>
    \<not> FilterState.showPinned (filters state) \<longrightarrow>
      sorted_wrt (\<lambda>a b. localeCompare rt (Note.title a) (Note.title b) \<le> 0)
        (getFilteredNotes rt state)) \<and>
   (consistent (localeCompare rt) \<and>
    localeCompare rt ''a'' ''b'' < 0 \<and> localeCompare rt ''b'' ''c'' < 0 \<longrightarrow>
      map Note.title (getFilteredNotes rt (with_filters state_ABC by_title))
      = [''a'', ''b'', ''c'']) \<and>
   (FilterState.showPinned (filters state) \<longrightarrow>
      getFilteredNotes rt state =
        filter (\<lambda>note. Note.pinned note)
          (getFilteredNotes rt
             (with_filters state ((filters state)\<lparr> FilterState.showPinned := False \<rparr>))) @
        filter (\<lambda>note. \<not> Note.pinned note)
          (getFilteredNotes rt
             (with_filters state ((filters state)\<lparr> FilterState.showPinned := False \<rparr>))))"
  using mset_getFilteredNotes [of rt state] title_sorted [of rt state] title_example [of rt]
    pinned_partition [of state rt]
  by blast

lemma passing_five_all:
  "filter (passes_filters rt defaultPreferences by_title)
     [note_A, note_B, note_C, note_D, note_E] = [note_A, note_B, note_C, note_E]"
  by (simp add: passes_filters_def passes_other_filters_def by_title_def defaultFilters_def
      note_A_def note_B_def note_C_def note_D_def note_E_def)

lemma sorted_five_title:
  "sort_by (\<lambda>a b. collate (Note.title a) (Note.title b)) [note_A, note_B, note_C, note_E]
     = [note_B, note_A, note_E, note_C]"
  by (simp add: sort_by_def collate_def collation_key_def
      note_A_def note_B_def note_C_def note_E_def)

theorem title_sort_and_pinning_witness:
  "consistent (localeCompare runtime_example) \<and>
   localeCompare runtime_example ''a'' ''b'' < 0 \<and> localeCompare runtime_example ''b'' ''c'' < 0 \<and>
   map Note.title (getFilteredNotes runtime_example (with_filters state_ABC by_title))
     = [''a'', ''b'', ''c''] \<and>
   FilterState.sortBy (filters (with_filters state_five by_title)) = ByTitle \<and>
   FilterState.sortDirection (filters (with_filters state_five by_title)) = Asc \<and>
   \<not> FilterState.showPinned (filters (with_filters state_five by_title)) \<and>
   getFilteredNotes runtime_example (with_filters state_five by_title)
     = [note_B, note_A, note_E, note_C] \<and>
   sorted_wrt (\<lambda>a b. localeCompare runtime_example (Note.title a) (Note.title b) \<le> 0)
     (getFilteredNotes runtime_example (with_filters state_five by_title)) \<and>
   mset (getFilteredNotes runtime_example (with_filters state_five by_title))
     = {#note_A, note_B, note_C, note_E#} \<and>
   FilterState.showPinned (filters (with_filters state_five by_title_pinned)) \<and>
   getFilteredNotes runtime_example (with_filters state_five by_title_pinned)
     = [note_C, note_B, note_A, note_E]"
proof -
  let ?t = "with_filters state_five by_title"
  let ?p = "with_filters state_five by_title_pinned"
  have c: "consistent (localeCompare runtime_example)"
    by (simp add: runtime_example_def consistent_collate)
  have o: "localeCompare runtime_example ''a'' ''b'' < 0"
    "localeCompare runtime_example ''b'' ''c'' < 0"
    by (simp_all add: runtime_example_def collate_def collation_key_def)
  have f: "FilterState.sortBy (filters ?t) = ByTitle" "FilterState.sortDirection (filters ?t) = Asc"
    "\<not> FilterState.showPinned (filters ?t)"
    by (simp_all add: with_filters_def by_title_def)
  have p: "FilterState.showPinned (filters ?p)"
    by (simp add: with_filters_def by_title_pinned_def defaultFilters_def)
  have tp: "with_filters ?p ((filters ?p)\<lparr> FilterState.showPinned := False \<rparr>) = ?t"
    by (simp add: with_filters_def by_title_pinned_def by_title_def)
  have s: "filters ?t = by_title" "preferences ?t = defaultPreferences"
    "elems (notes ?t) = [note_A, note_B, note_C, note_D, note_E]"
    by (simp_all add: with_filters_def state_five_def state_ABC_def)
  have b: "FilterState.sortBy by_title = ByTitle" "FilterState.sortDirection by_title = Asc"
    "\<not> FilterState.showPinned by_title"
    by (simp_all add: by_title_def)
  have r: "getFilteredNotes runtime_example ?t = [note_B, note_A, note_E, note_C]"
    unfolding getFilteredNotes_stages stages_filter s passing_five_all
      sortNotes_title [OF c b(1,2)]
    by (simp add: runtime_example_def sorted_five_title pinToTop_def b)
  have part: "filter (\<lambda>note. Note.pinned note) [note_B, note_A, note_E, note_C] @
        filter (\<lambda>note. \<not> Note.pinned note) [note_B, note_A, note_E, note_C]
        = [note_C, note_B, note_A, note_E]"
    by (simp add: note_A_def note_B_def note_C_def note_E_def)
  note t = title_sort_and_pinning [of runtime_example ?t]
  note q = title_sort_and_pinning [of runtime_example ?p]
  from t c o
  have 1: "map Note.title (getFilteredNotes runtime_example (with_filters state_ABC by_title))
             = [''a'', ''b'', ''c'']"
    by blast
  from t c f
  have 2: "sorted_wrt (\<lambda>a b. localeCompare runtime_example (Note.title a) (Note.title b) \<le> 0)
              (getFilteredNotes runtime_example ?t)"
    by blast
  from t have 3: "mset (getFilteredNotes runtime_example ?t) = {#note_A, note_B, note_C, note_E#}"
    unfolding s passing_five_all by simp
  from q p have 4: "getFilteredNotes runtime_example ?p = [note_C, note_B, note_A, note_E]"
    unfolding tp r part by blast
  from c o 1 f r 2 3 p 4 show ?thesis by blast
qed

text \<open>
  The claim as it stands fails where the titles differ in case: the order
  \<^verbatim>\<open>localeCompare\<close> gives is the order of a collation, not the lexicographic order of
  the characters. The titles B, a, c come out as a, B, c, which is not in
  lexicographic order: there B goes before a.
\<close>

theorem title_order_counterexample:
  "map Note.title (elems (notes state_BaC)) = [''B'', ''a'', ''c''] \<and>
   map Note.title (getFilteredNotes runtime_example (with_filters state_BaC by_title))
     = [''a'', ''B'', ''c''] \<and>
   \<not> sorted (map Note.title (getFilteredNotes runtime_example (with_filters state_BaC by_title))) \<and>
   ''B'' < ''a''"
proof -
  have c: "consistent (localeCompare runtime_example)"
    by (simp add: runtime_example_def consistent_collate)
  have b: "FilterState.sortBy by_title = ByTitle" "FilterState.sortDirection by_title = Asc"
    by (simp_all add: by_title_def)
  have s: "filters (with_filters state_BaC by_title) = by_title"
    "preferences (with_filters state_BaC by_title) = defaultPreferences"
    "elems (notes (with_filters state_BaC by_title))
       = [note_A\<lparr> Note.title := ''B'' \<rparr>, note_B, note_C]"
    by (simp_all add: with_filters_def state_BaC_def state_ABC_def)
  have k: "filter (passes_filters runtime_example defaultPreferences by_title)
     [note_A\<lparr> Note.title := ''B'' \<rparr>, note_B, note_C]
     = [note_A\<lparr> Note.title := ''B'' \<rparr>, note_B, note_C]"
    by (simp add: passes_filters_def passes_other_filters_def by_title_def defaultFilters_def
        note_A_def note_B_def note_C_def)
  have o: "sort_by (\<lambda>a b. collate (Note.title a) (Note.title b))
             [note_A\<lparr> Note.title := ''B'' \<rparr>, note_B, note_C]
           = [note_B, note_A\<lparr> Note.title := ''B'' \<rparr>, note_C]"
    by (simp add: sort_by_def collate_def collation_key_def note_A_def note_B_def note_C_def)
  have lc: "localeCompare runtime_example = collate"
    by (simp add: runtime_example_def)
  have n: "map Note.title (elems (notes state_BaC)) = [''B'', ''a'', ''c'']"
    by (simp add: state_BaC_def note_A_def note_B_def note_C_def)
  have r: "map Note.title (getFilteredNotes runtime_example (with_filters state_BaC by_title))
             = [''a'', ''B'', ''c'']"
    unfolding getFilteredNotes_stages stages_filter s k sortNotes_title [OF c b] lc o
    by (simp add: pinToTop_def by_title_def note_A_def note_B_def note_C_def)
  have l: "''B'' < ''a''" by simp
  have u: "\<not> sorted (map Note.title
             (getFilteredNotes runtime_example (with_filters state_BaC by_title)))"
    unfolding r by simp
  from n r u l show ?thesis by blast
qed

section \<open>Properties of import and export (storage.ts)\<close>

subsection \<open>Evaluation of the example data\<close>

lemma string_of_nat_numeral [simp]:
  "string_of_nat (numeral k) =
     (if (numeral k :: nat) < 10 then [''0123456789'' ! numeral k]
      else string_of_nat (numeral k div 10) @ [''0123456789'' ! (numeral k mod 10)])"
  by (rule string_of_nat.simps)

lemma string_of_nat_small [simp]:
  "string_of_nat 0 = ''0''" "string_of_nat (Suc 0) = ''1''" "string_of_nat 1 = ''1''"
  by (subst string_of_nat.simps, simp)+

lemma length_note [simp]: "length (render note_json) = 170"
  by (simp add: note_json_def quote_def escape_def)

lemma length_tag [simp]: "length (render tag_json) = 102"
  by (simp add: tag_json_def quote_def escape_def)

lemma length_prefs [simp]: "length (render defaultPreferencesJson) = 64"
  by (simp add: defaultPreferencesJson_def quote_def escape_def)



subsection \<open>Rejected imports\<close>









subsection \<open>The round trip\<close>



















section \<open>Properties of the persistence (AppContext.tsx)\<close>

lemma backupKey_1 [simp]:
  "backupKey ''notes-app-data'' 1700000000000 = ''notes-backup-notes-app-data-1700000000000''"
  by (simp add: backupKey_def BACKUP_PREFIX_def)

lemma percentage_empty: "percentage browser_empty = 0"
  by (simp add: percentage_def used_def total_def browser_empty_def)

lemma createBackup_1:
  "createBackup clock_1 browser_empty NOTES (JArr [note_json]) =
     \<lparr> items = [(''notes-backup-notes-app-data-1700000000000'',
                 Json (JObj [(''timestamp'', JStr ''2023-11-14T22:13:20.000Z''),
                             (''data'', JArr [note_json]),
                             (''originalKey'', JStr ''notes-app-data'')]))],
       quota = 5242880,
       writes = [(''notes-backup-notes-app-data-1700000000000'',
                 Json (JObj [(''timestamp'', JStr ''2023-11-14T22:13:20.000Z''),
                             (''data'', JArr [note_json]),
                             (''originalKey'', JStr ''notes-app-data'')]))],
       events = [] \<rparr>"
  by (simp add: createBackup_def browser_empty_def clock_1_def NOTES_def BACKUP_PREFIX_def
      setItem_def stored_size_def JSON_stringify_def quote_def escape_def keys_def
      removeItems_def)

lemma browser_saved_eq:
  "browser_saved =
     \<lparr> items = [(''notes-backup-notes-app-data-1700000000000'',
                 Json (JObj [(''timestamp'', JStr ''2023-11-14T22:13:20.000Z''),
                             (''data'', JArr [note_json]),
                             (''originalKey'', JStr ''notes-app-data'')])),
                (''notes-app-data'', Json (JArr [note_json])),
                (''notes-metadata'',
                 Json (JObj [(''lastSaved'', JStr ''2023-11-14T22:13:20.000Z''),
                             (''version'', JStr ''1.0.0''), (''dataSize'', JNum 172)]))],
       quota = 5242880,
       writes = [(''notes-backup-notes-app-data-1700000000000'',
                 Json (JObj [(''timestamp'', JStr ''2023-11-14T22:13:20.000Z''),
                             (''data'', JArr [note_json]),
                             (''originalKey'', JStr ''notes-app-data'')])),
                (''notes-app-data'', Json (JArr [note_json])),
                (''notes-metadata'',
                 Json (JObj [(''lastSaved'', JStr ''2023-11-14T22:13:20.000Z''),
                             (''version'', JStr ''1.0.0''), (''dataSize'', JNum 172)]))],
       events = [] \<rparr>"
  unfolding browser_saved_def saveToLocalStorage_def percentage_empty Let_def
  apply (simp add: createBackup_1)
  apply (simp add: NOTES_def METADATA_def clock_1_def setItem_def stored_size_def
      JSON_stringify_def quote_def escape_def string_of_int_def)
  done

lemma recoveryPrefix_eval:
  "recoveryPrefix NOTES = ''notes-backup-data-''" "recoveryPrefix TAGS = ''notes-backup-tags-''"
  by (simp_all add: recoveryPrefix_def NOTES_def TAGS_def BACKUP_PREFIX_def)

lemma recovery_prefix_mismatch:
  "\<not> prefix (recoveryPrefix NOTES) (backupKey NOTES ms)"
  "\<not> prefix (recoveryPrefix TAGS) (backupKey TAGS ms)"
  unfolding recoveryPrefix_eval
  by (simp_all add: backupKey_def NOTES_def TAGS_def BACKUP_PREFIX_def)

text \<open>
  More generally: where every key of the store that starts with the backup prefix is one
  \<^verbatim>\<open>createBackup\<close> wrote for the notes or the tags, recovery finds no backup and returns
  the default, for each of the three keys.
\<close>

lemma prefix_recoveryPrefix_backup:
  "prefix (recoveryPrefix k) bk \<Longrightarrow> prefix BACKUP_PREFIX bk"
  by (auto simp: recoveryPrefix_def prefix_def)

lemma recovery_prefix_mismatch_all:
  assumes "k \<in> {NOTES, TAGS, PREFERENCES}" and "k' \<in> {NOTES, TAGS}"
  shows "\<not> prefix (recoveryPrefix k) (backupKey k' ms)"
  using assms
  by (auto simp: recoveryPrefix_def backupKey_def NOTES_def TAGS_def PREFERENCES_def
      BACKUP_PREFIX_def)

lemma recovery_finds_no_created_backup:
  assumes k: "k \<in> {NOTES, TAGS, PREFERENCES}"
    and created: "\<And>bk. bk \<in> set (keys b) \<Longrightarrow> prefix BACKUP_PREFIX bk \<Longrightarrow>
                   \<exists>ms. bk = backupKey NOTES ms \<or> bk = backupKey TAGS ms"
  shows "attemptDataRecovery clock b k defaultValue = (defaultValue, b)"
proof -
  have "filter (prefix (recoveryPrefix k)) (keys b) = []"
  proof (rule filter_False, rule ballI)
    fix bk assume bk: "bk \<in> set (keys b)"
    show "\<not> prefix (recoveryPrefix k) bk"
    proof
      assume p: "prefix (recoveryPrefix k) bk"
      then have "prefix BACKUP_PREFIX bk" by (rule prefix_recoveryPrefix_backup)
      with created bk obtain ms where "bk = backupKey NOTES ms \<or> bk = backupKey TAGS ms"
        by blast
      with p recovery_prefix_mismatch_all [OF k, of NOTES ms]
        recovery_prefix_mismatch_all [OF k, of TAGS ms]
      show False by auto
    qed
  qed
  then show ?thesis by (simp add: attemptDataRecovery_def)
qed

lemma valid_notes_json: "validateData (JArr [note_json]) NOTES"
  by (simp add: validateData_def validNote_def note_json_def)

lemma browser_corrupted_eq:
  "browser_corrupted =
     \<lparr> items = [(''notes-backup-notes-app-data-1700000000000'',
                 Json (JObj [(''timestamp'', JStr ''2023-11-14T22:13:20.000Z''),
                             (''data'', JArr [note_json]),
                             (''originalKey'', JStr ''notes-app-data'')])),
                (''notes-app-data'', Garbage ''[{''),
                (''notes-metadata'',
                 Json (JObj [(''lastSaved'', JStr ''2023-11-14T22:13:20.000Z''),
                             (''version'', JStr ''1.0.0''), (''dataSize'', JNum 172)]))],
       quota = 5242880,
       writes = writes browser_saved,
       events = [] \<rparr>"
  by (simp add: browser_corrupted_def browser_saved_eq NOTES_def)

text \<open>
  Claim C4 at a store the code itself produces. The notes were saved once, which left a
  backup under \<^verbatim>\<open>notes-backup-notes-app-data-1700000000000\<close>; the item of the notes
  was then cut short. The item does not parse, the backup's data validate, and yet
  loading the notes returns the caller's default and writes nothing: recovery looks
  for keys that start with \<^verbatim>\<open>notes-backup-data-\<close>, which no key \<^verbatim>\<open>createBackup\<close>
  writes does (\<open>recovery_prefix_mismatch\<close>).
\<close>

theorem recovery_misses_backup:
  "getItem browser_corrupted NOTES = Some (Garbage ''[{'') \<and>
   JSON_parse (Garbage ''[{'') = None \<and>
   getItem browser_corrupted (backupKey NOTES (millis clock_1))
     = Some (JSON_stringify (JObj [(''timestamp'', JStr (isoString clock_1)),
                                   (''data'', JArr [note_json]), (''originalKey'', JStr NOTES)])) \<and>
   validateData (JArr [note_json]) NOTES \<and>
   loadFromLocalStorage clock_2 browser_corrupted NOTES (JArr []) = (JArr [], browser_corrupted)"
proof -
  have g: "getItem browser_corrupted NOTES = Some (Garbage ''[{'')"
    by (simp add: browser_corrupted_eq getItem_def NOTES_def)
  have k: "getItem browser_corrupted (backupKey NOTES (millis clock_1))
     = Some (JSON_stringify (JObj [(''timestamp'', JStr (isoString clock_1)),
                                   (''data'', JArr [note_json]), (''originalKey'', JStr NOTES)]))"
    by (simp add: browser_corrupted_eq getItem_def NOTES_def clock_1_def JSON_stringify_def)
  have f: "filter (prefix (recoveryPrefix NOTES)) (keys browser_corrupted) = []"
    unfolding recoveryPrefix_eval by (simp add: browser_corrupted_eq keys_def)
  have "attemptDataRecovery clock_2 browser_corrupted NOTES (JArr []) = (JArr [], browser_corrupted)"
    by (simp add: attemptDataRecovery_def f)
  with g have "loadFromLocalStorage clock_2 browser_corrupted NOTES (JArr [])
      = (JArr [], browser_corrupted)"
    by (simp add: loadFromLocalStorage_def)
  with g k valid_notes_json show ?thesis by simp
qed

lemma browser_prefs_eq:
  "browser_prefs =
     \<lparr> items = [(PREFERENCES, Json defaultPreferencesJson),
                (METADATA, Json (JObj [(''lastSaved'', JStr (isoString clock_1)),
                                       (''version'', JStr ''1.0.0''), (''dataSize'', JNum 64)]))],
       quota = 5242880,
       writes = [(PREFERENCES, Json defaultPreferencesJson),
                (METADATA, Json (JObj [(''lastSaved'', JStr (isoString clock_1)),
                                       (''version'', JStr ''1.0.0''), (''dataSize'', JNum 64)]))],
       events = [] \<rparr>"
  by (simp add: browser_prefs_def saveToLocalStorage_def browser_empty_def percentage_def used_def
      total_def Let_def setItem_def stored_size_def JSON_stringify_def
      PREFERENCES_def NOTES_def TAGS_def METADATA_def clock_1_def quote_def escape_def
      string_of_int_def)

text \<open>
  \<^verbatim>\<open>StorageUtils.importData\<close> checks no version: an envelope of version 2 that wraps
  its notes in \<^verbatim>\<open>data\<close> is saved, backup and metadata included.
\<close>

lemma StorageUtils_import_takes_version_2:
  "StorageUtils_importData clock_1 browser_empty
     (Json (JObj [(''version'', JNum 2), (''data'', JObj [(''notes'', JArr [note_json])])]))
   = (True, browser_saved)"
  by (simp add: StorageUtils_importData_def the_json_def browser_saved_def)

text \<open>
  A save that returns \<^verbatim>\<open>true\<close> has called \<^verbatim>\<open>setItem\<close> with the key and the
  serialized value, whatever the store held before.
\<close>

lemma writes_removeItems [simp]: "writes (removeItems b ks) = writes b"
  unfolding removeItems_def
  by (induction ks arbitrary: b) (simp_all add: removeItem_def)

lemma setItem_writes: "setItem b k v = Inr b' \<Longrightarrow> writes b' = writes b @ [(k, v)]"
  by (auto simp: setItem_def split: if_splits)

lemma createBackup_writes: "\<exists>ws. writes (createBackup clock b k data) = writes b @ ws"
  by (auto simp: createBackup_def Let_def dest: setItem_writes split: sum.splits)

lemma writes_prune [simp]:
  "writes (foldl (\<lambda>b' group. removeItems b' (f group)) b groups) = writes b"
  by (induction groups arbitrary: b) simp_all

lemma handleQuotaExceeded_writes:
  assumes "handleQuotaExceeded b k data = (True, b')"
  shows "writes b' = writes b @ [(k, JSON_stringify data)]"
  using assms
  by (auto simp: handleQuotaExceeded_def Let_def dest!: setItem_writes split: sum.splits)

lemma onSaveError_writes:
  assumes "onSaveError error b k data = (True, b')"
  shows "writes b' = writes b @ [(k, JSON_stringify data)]"
  using assms handleQuotaExceeded_writes
  by (auto simp: onSaveError_def split: if_splits)

lemma save_always_writes:
  assumes "saveToLocalStorage clock b k data = (True, b')"
  shows "\<exists>ws. writes b' = writes b @ ws \<and> (k, JSON_stringify data) \<in> set ws"
proof -
  define b1 where "b1 = (if percentage b > 80 \<and> percentage b > 90
                then removeItems b (filter (prefix BACKUP_PREFIX) (keys b)) else b)"
  define b2 where "b2 = (if k = NOTES \<or> k = TAGS then createBackup clock b1 k data else b1)"
  have w1: "writes b1 = writes b" by (simp add: b1_def)
  have "\<exists>ws. writes b2 = writes b @ ws"
  proof (cases "k = NOTES \<or> k = TAGS")
    case True
    then show ?thesis
      using createBackup_writes [of clock b1 k data] w1 by (simp add: b2_def)
  next
    case False
    then show ?thesis by (simp add: b2_def w1)
  qed
  then obtain ws where w2: "writes b2 = writes b @ ws" by blast
  from assms have s: "(case setItem b2 k (JSON_stringify data) of
           Inl error \<Rightarrow> onSaveError error b2 k data
         | Inr b3 \<Rightarrow>
             (case setItem b3 METADATA
                     (JSON_stringify (JObj [(''lastSaved'', JStr (isoString clock)),
                                            (''version'', JStr ''1.0.0''),
                                            (''dataSize'', JNum (int (text_length (JSON_stringify data))))])) of
                Inl error \<Rightarrow> onSaveError error b3 k data
              | Inr b4 \<Rightarrow> (True, b4))) = (True, b')"
    unfolding saveToLocalStorage_def Let_def b1_def b2_def .
  show ?thesis
  proof (cases "setItem b2 k (JSON_stringify data)")
    case (Inl error)
    with s have "onSaveError error b2 k data = (True, b')" by simp
    then have "writes b' = writes b @ (ws @ [(k, JSON_stringify data)])"
      using onSaveError_writes w2 by fastforce
    then show ?thesis by force
  next
    case (Inr b3)
    then have w3: "writes b3 = writes b @ (ws @ [(k, JSON_stringify data)])"
      using setItem_writes w2 by fastforce
    show ?thesis
    proof (cases "setItem b3 METADATA
                     (JSON_stringify (JObj [(''lastSaved'', JStr (isoString clock)),
                                            (''version'', JStr ''1.0.0''),
                                            (''dataSize'', JNum (int (text_length (JSON_stringify data))))]))")
      case (Inl error)
      with s Inr have "onSaveError error b3 k data = (True, b')" by simp
      then have "writes b' = writes b @ (ws @ [(k, JSON_stringify data), (k, JSON_stringify data)])"
        using onSaveError_writes w3 by fastforce
      then show ?thesis by force
    next
      case r: (Inr b4)
      with s Inr have "b4 = b'" by simp
      with r have "writes b' = writes b @ (ws @ [(k, JSON_stringify data)] @
          [(METADATA, JSON_stringify (JObj [(''lastSaved'', JStr (isoString clock)),
                                            (''version'', JStr ''1.0.0''),
                                            (''dataSize'', JNum (int (text_length (JSON_stringify data))))]))])"
        using setItem_writes w3 by fastforce
      then show ?thesis by force
    qed
  qed
qed

text \<open>
  Claim C9 at a store that holds the preferences already. A debounced save of the same
  preferences, once its timer fires, calls \<^verbatim>\<open>setItem\<close> for the key and for the
  metadata: the serialized value is not compared with the stored one.
\<close>

theorem equal_value_is_written_again:
  "getItem browser_prefs PREFERENCES = Some (JSON_stringify defaultPreferencesJson) \<and>
   writes (snd (fire clock_2 (debouncedSave None PREFERENCES defaultPreferencesJson, browser_prefs)))
     = writes browser_prefs @
       [(PREFERENCES, JSON_stringify defaultPreferencesJson),
        (METADATA, JSON_stringify (JObj [(''lastSaved'', JStr (isoString clock_2)),
                                         (''version'', JStr ''1.0.0''), (''dataSize'', JNum 64)]))]"
  unfolding browser_prefs_eq
  by (simp add: fire_def debouncedSave_def saveToLocalStorage_def percentage_def used_def
      total_def Let_def setItem_def getItem_def stored_size_def JSON_stringify_def
      PREFERENCES_def NOTES_def TAGS_def METADATA_def clock_1_def clock_2_def quote_def escape_def
      string_of_int_def)

end
